theory Spec2Isabelle
  imports Complex_Main
begin

section \<open>Vectors and GLSL built-ins\<close>

text \<open>
  The two fragment shaders of the repository are embedded here:
  \<^verbatim>\<open>shaders/volume_rendering_lighting.frag\<close> (the procedural volume, names with the
  suffix \<open>_L\<close>) and the overlay shader that samples a 3D texture (names with the suffix
  \<open>_O\<close>). Functions whose text is the same in both files are embedded once, with the
  global constants they read as parameters.

  A GLSL \<^verbatim>\<open>float\<close> is modelled by a real number and its arithmetic by exact
  arithmetic, with two exceptions. Where a result depends on the rounding of binary32, the
  operation is rounded (\<open>round32\<close>): these are the step \<^verbatim>\<open>t += rayStepSize\<close> of the overlay
  march, the step size itself, and the opacity correction. Where the shader can divide by
  zero, in the bounding-box test, a second embedding of the test has the infinities and NaN
  of IEEE 754. A \<^verbatim>\<open>vec3\<close> or \<^verbatim>\<open>vec4\<close> is a triple or quadruple of reals; the operators
  of GLSL on vectors work componentwise.
\<close>

datatype vec2 = Vec2 (ux: real) (uy: real)

datatype vec3 = Vec3 (vx: real) (vy: real) (vz: real)

datatype vec4 = Vec4 (vr: real) (vg: real) (vb: real) (va: real)

definition vec3_of :: "real \<Rightarrow> vec3" where
  "vec3_of s = Vec3 s s s"

definition vec4_of :: "real \<Rightarrow> vec4" where
  "vec4_of s = Vec4 s s s s"

definition add3 :: "vec3 \<Rightarrow> vec3 \<Rightarrow> vec3" where
  "add3 u v = Vec3 (vx u + vx v) (vy u + vy v) (vz u + vz v)"

definition sub3 :: "vec3 \<Rightarrow> vec3 \<Rightarrow> vec3" where
  "sub3 u v = Vec3 (vx u - vx v) (vy u - vy v) (vz u - vz v)"

definition mul3 :: "vec3 \<Rightarrow> vec3 \<Rightarrow> vec3" where
  "mul3 u v = Vec3 (vx u * vx v) (vy u * vy v) (vz u * vz v)"

definition div3 :: "vec3 \<Rightarrow> vec3 \<Rightarrow> vec3" where
  "div3 u v = Vec3 (vx u / vx v) (vy u / vy v) (vz u / vz v)"

definition scale3 :: "real \<Rightarrow> vec3 \<Rightarrow> vec3" where
  "scale3 s v = Vec3 (s * vx v) (s * vy v) (s * vz v)"

definition neg3 :: "vec3 \<Rightarrow> vec3" where
  "neg3 v = Vec3 (- vx v) (- vy v) (- vz v)"

definition abs3 :: "vec3 \<Rightarrow> vec3" where
  "abs3 v = Vec3 (abs (vx v)) (abs (vy v)) (abs (vz v))"

definition min3 :: "vec3 \<Rightarrow> vec3 \<Rightarrow> vec3" where
  "min3 u v = Vec3 (min (vx u) (vx v)) (min (vy u) (vy v)) (min (vz u) (vz v))"

definition max3 :: "vec3 \<Rightarrow> vec3 \<Rightarrow> vec3" where
  "max3 u v = Vec3 (max (vx u) (vx v)) (max (vy u) (vy v)) (max (vz u) (vz v))"

definition dot3 :: "vec3 \<Rightarrow> vec3 \<Rightarrow> real" where
  "dot3 u v = vx u * vx v + vy u * vy v + vz u * vz v"

definition cross3 :: "vec3 \<Rightarrow> vec3 \<Rightarrow> vec3" where
  "cross3 u v = Vec3 (vy u * vz v - vz u * vy v)
                     (vz u * vx v - vx u * vz v)
                     (vx u * vy v - vy u * vx v)"

definition length3 :: "vec3 \<Rightarrow> real" where
  "length3 v = sqrt (dot3 v v)"

definition normalize3 :: "vec3 \<Rightarrow> vec3" where
  "normalize3 v = Vec3 (vx v / length3 v) (vy v / length3 v) (vz v / length3 v)"

definition mix1 :: "real \<Rightarrow> real \<Rightarrow> real \<Rightarrow> real" where
  "mix1 p q t = p * (1 - t) + q * t"

definition mix3 :: "vec3 \<Rightarrow> vec3 \<Rightarrow> real \<Rightarrow> vec3" where
  "mix3 u v t = Vec3 (mix1 (vx u) (vx v) t) (mix1 (vy u) (vy v) t) (mix1 (vz u) (vz v) t)"

definition add4 :: "vec4 \<Rightarrow> vec4 \<Rightarrow> vec4" where
  "add4 c d = Vec4 (vr c + vr d) (vg c + vg d) (vb c + vb d) (va c + va d)"

definition scale4 :: "real \<Rightarrow> vec4 \<Rightarrow> vec4" where
  "scale4 s c = Vec4 (s * vr c) (s * vg c) (s * vb c) (s * va c)"

text \<open>
  The swizzles \<^verbatim>\<open>.rgb\<close> and \<^verbatim>\<open>.xyz\<close> name the same three components of a \<^verbatim>\<open>vec4\<close>,
  and \<^verbatim>\<open>.a\<close> and \<^verbatim>\<open>.w\<close> the fourth (\<open>va\<close>).
\<close>

definition rgb :: "vec4 \<Rightarrow> vec3" where
  "rgb c = Vec3 (vr c) (vg c) (vb c)"

definition xyz :: "vec4 \<Rightarrow> vec3" where
  "xyz c = Vec3 (vr c) (vg c) (vb c)"

section \<open>Binary32 arithmetic\<close>

text \<open>
  A \<^verbatim>\<open>float\<close> of GLSL is an IEEE 754 binary32 number: 24 significant bits, exponents from
  \<open>-126\<close> to \<open>127\<close>, and below \<open>2 powr (-126)\<close> the subnormal numbers, the multiples of
  \<open>2 powr (-149)\<close>. \<open>ulp32 x\<close> is the distance between neighbouring binary32 numbers of
  the size of \<open>x\<close>, and \<open>round32 x\<close> is the binary32 number nearest to the real \<open>x\<close>, the
  one with an even significand when two are equally near (\<open>rne\<close> rounds a real to an
  integer in this way). An operation of the shader that the embedding rounds returns
  \<open>round32\<close> of the exact result. Overflow to an infinity (at \<open>2 powr 128\<close>) has no
  counterpart in \<open>round32\<close>; the numbers in the statements below are far from it.
\<close>

definition rne :: "real \<Rightarrow> int" where
  "rne x = (let f = \<lfloor>x\<rfloor>
            in if x - real_of_int f < 1/2 then f
               else if 1/2 < x - real_of_int f then f + 1
               else if even f then f else f + 1)"

definition ulp32 :: "real \<Rightarrow> real" where
  "ulp32 x = 2 powr real_of_int (max (\<lfloor>log 2 \<bar>x\<bar>\<rfloor> - 23) (- 149))"

definition round32 :: "real \<Rightarrow> real" where
  "round32 x = (if x = 0 then 0 else ulp32 x * real_of_int (rne (x / ulp32 x)))"

section \<open>The bounding-box test (both shaders)\<close>

text \<open>
  \<^verbatim>\<open>intersectBoundingBox\<close> reads the same in both files; the box corners \<^verbatim>\<open>bbMin\<close> and
  \<^verbatim>\<open>bbMax\<close> are global constants there and parameters here. The intermediate vectors
  of the source keep their names.

  The shader divides by every component of the ray direction. For a direction without a
  zero component the test is embedded over the reals: \<open>intersectBoundingBox\<close> returns
  \<open>Some (hit, tNear, tFar)\<close>, the return value and the two \<^verbatim>\<open>out\<close> parameters, and
  \<open>None\<close> for a direction with a zero component, which no real number stands for. The
  rays with a zero component are the subject of \<open>intersectBoundingBox_ieee\<close> below.
\<close>

definition invR :: "vec3 \<Rightarrow> vec3" where
  "invR rayDir = div3 (vec3_of 1) rayDir"

definition tbot :: "vec3 \<Rightarrow> vec3 \<Rightarrow> vec3 \<Rightarrow> vec3" where
  "tbot bbMin rayOrig rayDir = mul3 (invR rayDir) (sub3 bbMin rayOrig)"

definition ttop :: "vec3 \<Rightarrow> vec3 \<Rightarrow> vec3 \<Rightarrow> vec3" where
  "ttop bbMax rayOrig rayDir = mul3 (invR rayDir) (sub3 bbMax rayOrig)"

definition tmin :: "vec3 \<Rightarrow> vec3 \<Rightarrow> vec3 \<Rightarrow> vec3 \<Rightarrow> vec3" where
  "tmin bbMin bbMax rayOrig rayDir =
     min3 (ttop bbMax rayOrig rayDir) (tbot bbMin rayOrig rayDir)"

definition tmax :: "vec3 \<Rightarrow> vec3 \<Rightarrow> vec3 \<Rightarrow> vec3 \<Rightarrow> vec3" where
  "tmax bbMin bbMax rayOrig rayDir =
     max3 (ttop bbMax rayOrig rayDir) (tbot bbMin rayOrig rayDir)"

definition nonzero3 :: "vec3 \<Rightarrow> bool" where
  "nonzero3 v = (vx v \<noteq> 0 \<and> vy v \<noteq> 0 \<and> vz v \<noteq> 0)"

definition intersectBoundingBox ::
  "vec3 \<Rightarrow> vec3 \<Rightarrow> vec3 \<Rightarrow> vec3 \<Rightarrow> (bool \<times> real \<times> real) option" where
  "intersectBoundingBox bbMin bbMax rayOrig rayDir =
     (if \<not> nonzero3 rayDir then None
      else
        let lo = tmin bbMin bbMax rayOrig rayDir;
            hi = tmax bbMin bbMax rayOrig rayDir;
            largestTMin = max (max (vx lo) (vy lo)) (max (vx lo) (vz lo));
            smallestTMax = min (min (vx hi) (vy hi)) (min (vx hi) (vz hi))
        in Some (smallestTMax > largestTMin, largestTMin, smallestTMax))"

subsection \<open>Division by zero: infinities and NaN\<close>

text \<open>
  On IEEE 754 arithmetic \<^verbatim>\<open>1.0 / 0.0\<close> is an infinity with the sign of the zero, a number
  times an infinity is an infinity, and zero times an infinity is NaN. \<open>fl\<close> adds these
  values to the reals. A comparison with NaN is false (\<open>flt\<close> is \<^verbatim>\<open><\<close>, \<open>fle\<close> is
  \<^verbatim>\<open><=\<close>); \<^verbatim>\<open>min(x, y)\<close> is \<^verbatim>\<open>y\<close> if \<^verbatim>\<open>y < x\<close> and \<^verbatim>\<open>x\<close> otherwise, \<^verbatim>\<open>max(x, y)\<close> is
  \<^verbatim>\<open>y\<close> if \<^verbatim>\<open>x < y\<close> and \<^verbatim>\<open>x\<close> otherwise, as GLSL defines them. The box and the origin
  of the ray are finite; \<open>fmul\<close> is the product of a value of \<open>fl\<close> with a finite
  number. The signs of the zero components of the direction, which a real vector does not
  carry, are the argument \<open>sg\<close> (true for \<open>-0.0\<close>).

  \<open>intersectBoundingBox_ieee\<close> is the function of the source over these values, line by
  line; for a direction without zero component it agrees with \<open>intersectBoundingBox\<close>
  (\<open>intersectBoundingBox_ieee_finite\<close>).
\<close>

datatype fl = Fin real | PInf | NInf | NaN

datatype fvec3 = FVec3 (fx: fl) (fy: fl) (fz: fl)

datatype signs3 = Signs3 (sgx: bool) (sgy: bool) (sgz: bool)

fun flt :: "fl \<Rightarrow> fl \<Rightarrow> bool" where
  "flt (Fin a) (Fin b) = (a < b)"
| "flt (Fin a) PInf = True"
| "flt NInf (Fin b) = True"
| "flt NInf PInf = True"
| "flt _ _ = False"


definition fmin :: "fl \<Rightarrow> fl \<Rightarrow> fl" where
  "fmin x y = (if flt y x then y else x)"

definition fmax :: "fl \<Rightarrow> fl \<Rightarrow> fl" where
  "fmax x y = (if flt x y then y else x)"

fun fmul :: "fl \<Rightarrow> real \<Rightarrow> fl" where
  "fmul (Fin a) b = Fin (a * b)"
| "fmul PInf b = (if 0 < b then PInf else if b < 0 then NInf else NaN)"
| "fmul NInf b = (if 0 < b then NInf else if b < 0 then PInf else NaN)"
| "fmul NaN b = NaN"

definition recip :: "bool \<Rightarrow> real \<Rightarrow> fl" where
  "recip negative d = (if d = 0 then (if negative then NInf else PInf) else Fin (1 / d))"

definition invR_ieee :: "signs3 \<Rightarrow> vec3 \<Rightarrow> fvec3" where
  "invR_ieee sg rayDir =
     FVec3 (recip (sgx sg) (vx rayDir)) (recip (sgy sg) (vy rayDir)) (recip (sgz sg) (vz rayDir))"

definition fmul3 :: "fvec3 \<Rightarrow> vec3 \<Rightarrow> fvec3" where
  "fmul3 u v = FVec3 (fmul (fx u) (vx v)) (fmul (fy u) (vy v)) (fmul (fz u) (vz v))"

definition fmin3 :: "fvec3 \<Rightarrow> fvec3 \<Rightarrow> fvec3" where
  "fmin3 u v = FVec3 (fmin (fx u) (fx v)) (fmin (fy u) (fy v)) (fmin (fz u) (fz v))"

definition fmax3 :: "fvec3 \<Rightarrow> fvec3 \<Rightarrow> fvec3" where
  "fmax3 u v = FVec3 (fmax (fx u) (fx v)) (fmax (fy u) (fy v)) (fmax (fz u) (fz v))"

definition tbot_ieee :: "vec3 \<Rightarrow> vec3 \<Rightarrow> signs3 \<Rightarrow> vec3 \<Rightarrow> fvec3" where
  "tbot_ieee bbMin rayOrig sg rayDir = fmul3 (invR_ieee sg rayDir) (sub3 bbMin rayOrig)"

definition ttop_ieee :: "vec3 \<Rightarrow> vec3 \<Rightarrow> signs3 \<Rightarrow> vec3 \<Rightarrow> fvec3" where
  "ttop_ieee bbMax rayOrig sg rayDir = fmul3 (invR_ieee sg rayDir) (sub3 bbMax rayOrig)"

definition tmin_ieee :: "vec3 \<Rightarrow> vec3 \<Rightarrow> vec3 \<Rightarrow> signs3 \<Rightarrow> vec3 \<Rightarrow> fvec3" where
  "tmin_ieee bbMin bbMax rayOrig sg rayDir =
     fmin3 (ttop_ieee bbMax rayOrig sg rayDir) (tbot_ieee bbMin rayOrig sg rayDir)"

definition tmax_ieee :: "vec3 \<Rightarrow> vec3 \<Rightarrow> vec3 \<Rightarrow> signs3 \<Rightarrow> vec3 \<Rightarrow> fvec3" where
  "tmax_ieee bbMin bbMax rayOrig sg rayDir =
     fmax3 (ttop_ieee bbMax rayOrig sg rayDir) (tbot_ieee bbMin rayOrig sg rayDir)"

definition intersectBoundingBox_ieee ::
  "vec3 \<Rightarrow> vec3 \<Rightarrow> vec3 \<Rightarrow> signs3 \<Rightarrow> vec3 \<Rightarrow> bool \<times> fl \<times> fl" where
  "intersectBoundingBox_ieee bbMin bbMax rayOrig sg rayDir =
     (let lo = tmin_ieee bbMin bbMax rayOrig sg rayDir;
          hi = tmax_ieee bbMin bbMax rayOrig sg rayDir;
          largestTMin = fmax (fmax (fx lo) (fy lo)) (fmax (fx lo) (fz lo));
          smallestTMax = fmin (fmin (fx hi) (fy hi)) (fmin (fx hi) (fz hi))
      in (flt largestTMin smallestTMax, largestTMin, smallestTMax))"








section \<open>The lighting shader: procedural volume\<close>

subsection \<open>Constants\<close>

definition cube1 :: vec4 where
  "cube1 = Vec4 0 0 0 1"

definition cube2 :: vec4 where
  "cube2 = Vec4 1 1 1 (3/2)"

definition sphere1 :: vec4 where
  "sphere1 = Vec4 1 0 3 (1/2)"

definition cube1Density :: real where
  "cube1Density = 15/1000"

definition cube2Density :: real where
  "cube2Density = 2/100"

definition sphere1Density :: real where
  "sphere1Density = 3/100"

definition bbMin_L :: vec3 where
  "bbMin_L = vec3_of (- (7/2))"

definition bbMax_L :: vec3 where
  "bbMax_L = vec3_of (7/2)"

definition fovy :: real where
  "fovy = 58 * (314159267 / 100000000 / 180)"

definition zNear :: real where
  "zNear = 1/10"

definition sampleNum_L :: int where
  "sampleNum_L = 256"

definition EPS :: real where
  "EPS = 1 / 10000000"

definition background :: vec4 where
  "background = Vec4 0 0 0 1"

text \<open>
  The light direction, the light and specular colours, the three contributions and the
  specular exponent are global constants of the shader. They are gathered in a record that
  the functions take as an argument, so that what a result depends on can be stated;
  \<open>lights_L\<close> holds the values of the source.
\<close>

record lighting_constants =
  lightDir :: vec3
  lightColor :: vec4
  specularColor :: vec4
  ka :: real
  kd :: real
  ks :: real
  exponent :: real

definition lights_L :: lighting_constants where
  "lights_L = \<lparr> lightDir = Vec3 1 1 1, lightColor = vec4_of 1, specularColor = vec4_of 1,
                 ka = 1/2, kd = 1/2, ks = 7/10, exponent = 50 \<rparr>"

subsection \<open>Sampling and classification\<close>

definition isInSphere :: "vec3 \<Rightarrow> vec4 \<Rightarrow> bool" where
  "isInSphere point sphere =
     (let spherePos = xyz sphere in length3 (sub3 point spherePos) \<le> va sphere)"

definition isInCube :: "vec3 \<Rightarrow> vec4 \<Rightarrow> bool" where
  "isInCube point cube =
     (let dist = abs3 (sub3 point (xyz cube))
      in vx dist < va cube \<and> vy dist < va cube \<and> vz dist < va cube)"

definition sampleVolume_L :: "vec3 \<Rightarrow> real" where
  "sampleVolume_L volumeCoord =
     (let in1 = isInCube volumeCoord cube1;
          in2 = isInCube volumeCoord cube2;
          in3 = isInSphere volumeCoord sphere1;
          result = 0;
          result = (if in1 then result + cube1Density else result);
          result = (if in2 then result + cube2Density else result);
          result = (if in3 then result + sphere1Density else result)
      in result)"

definition transferFunction_L :: "real \<Rightarrow> vec4" where
  "transferFunction_L value =
     (if value > EPS then
        (if value > cube1Density + EPS then
           (if value > cube2Density + EPS then
              (if value > cube1Density + cube2Density + EPS then Vec4 0 0 0 1
               else Vec4 1 0 0 1)
            else Vec4 0 1 0 1)
         else Vec4 0 0 1 1)
      else vec4_of 0)"

subsection \<open>Gradient and lighting\<close>

text \<open>
  \<^verbatim>\<open>gradientIntermediate\<close> (the variant that \<^verbatim>\<open>USE_INTERMEDIATE\<close> selects) declares a
  local \<^verbatim>\<open>result\<close> and returns it without ever assigning it. The value of an
  uninitialised variable is undefined in GLSL; here it is the argument \<open>uninit\<close>, any
  function of the position.
\<close>

definition gradientIntermediate :: "(vec3 \<Rightarrow> vec3) \<Rightarrow> vec3 \<Rightarrow> vec3" where
  "gradientIntermediate uninit pos = (let result = uninit pos in result)"

definition lighting :: "lighting_constants \<Rightarrow> vec4 \<Rightarrow> vec3 \<Rightarrow> vec3 \<Rightarrow> vec4" where
  "lighting lp diffuseColor normal eyeDir = (let color = diffuseColor in color)"

subsection \<open>The ray march\<close>

definition rayStepSize_L :: real where
  "rayStepSize_L = (vx bbMax_L - vx bbMin_L) / real_of_int sampleNum_L"

text \<open>
  One pass through the body of the \<^verbatim>\<open>for\<close> loop after the early-termination test:
  \<open>shade_L\<close> is the colour of the sample at the new position with \<^verbatim>\<open>color.rgb *= color.a\<close>
  applied, \<open>blend_L\<close> is \<^verbatim>\<open>finalColor += color * (1.0F - finalColor.w)\<close>.
\<close>

definition premultiply :: "vec4 \<Rightarrow> vec4" where
  "premultiply color = Vec4 (vr color * va color) (vg color * va color) (vb color * va color) (va color)"

definition shade_L :: "lighting_constants \<Rightarrow> (vec3 \<Rightarrow> vec3) \<Rightarrow> vec3 \<Rightarrow> vec3 \<Rightarrow> vec4" where
  "shade_L lp uninit rayDir pos =
     (let sampleValue = sampleVolume_L pos;
          color = transferFunction_L sampleValue;
          grad = gradientIntermediate uninit pos;
          finalGradient = grad;
          color = lighting lp color (neg3 (normalize3 finalGradient)) (neg3 rayDir)
      in premultiply color)"

definition blend_L :: "vec4 \<Rightarrow> vec4 \<Rightarrow> vec4" where
  "blend_L finalColor color = add4 finalColor (scale4 (1 - va finalColor) color)"

function rayLoop_L ::
  "lighting_constants \<Rightarrow> (vec3 \<Rightarrow> vec3) \<Rightarrow> vec3 \<Rightarrow> int \<Rightarrow> vec3 \<Rightarrow> vec4 \<Rightarrow> vec4" where
  "rayLoop_L lp uninit rayDir i pos finalColor =
     (if i < sampleNum_L then
        (if va finalColor > 99/100 then finalColor
         else rayLoop_L lp uninit rayDir (i + 1)
                (add3 pos (scale3 rayStepSize_L rayDir))
                (blend_L finalColor
                   (shade_L lp uninit rayDir (add3 pos (scale3 rayStepSize_L rayDir)))))
      else finalColor)"
  by pat_completeness auto
termination
  by (relation "measure (\<lambda>(lp, uninit, rayDir, i, pos, finalColor). nat (sampleNum_L - i))") auto

text \<open>
  The part of \<^verbatim>\<open>mainImage\<close> from the bounding-box test on, as a function of the ray.
  \<open>None\<close> is the ray the box test does not model.
\<close>

definition castRay_L ::
  "lighting_constants \<Rightarrow> (vec3 \<Rightarrow> vec3) \<Rightarrow> vec3 \<Rightarrow> vec3 \<Rightarrow> vec4 option" where
  "castRay_L lp uninit camPos rayDir =
     (case intersectBoundingBox bbMin_L bbMax_L camPos rayDir of
        None \<Rightarrow> None
      | Some (hit, tNear0, tFar) \<Rightarrow>
          Some (let tNear = (if tNear0 < 0 then 0 else tNear0)
                in if \<not> hit then background
                   else
                     let pos = add3 camPos (scale3 tNear rayDir);
                         finalColor = rayLoop_L lp uninit rayDir 0 pos (vec4_of 0)
                     in add4 (scale4 (va finalColor) finalColor)
                             (scale4 (1 - va finalColor) background)))"

text \<open>
  The camera of \<^verbatim>\<open>mainImage\<close>: the position on its orbit and the direction of the ray
  through the pixel at \<^verbatim>\<open>uv\<close>. The arguments are the radius of the orbit (7 in this
  shader, 1.5 in the other) and the uniforms.
\<close>

definition cameraRay :: "real \<Rightarrow> vec2 \<Rightarrow> real \<Rightarrow> vec2 \<Rightarrow> vec3 \<times> vec3" where
  "cameraRay radius iResolution iTime uv =
     (let aspect = ux iResolution / uy iResolution;
          camSpeed = 1/2;
          camPos = scale3 radius (Vec3 (cos (iTime * camSpeed)) (1/2) (sin (iTime * camSpeed)));
          camDir = neg3 (normalize3 camPos);
          camUp = Vec3 0 1 0;
          camRight = normalize3 (cross3 camDir camUp);
          camUp = normalize3 (cross3 camRight camDir);
          fovx = 2 * arctan (tan (fovy / 2) * aspect);
          uL = add3 (add3 (add3 (scale3 (tan (fovx * (1/2)) * zNear) (neg3 camRight))
                                (scale3 (tan (fovy * (1/2)) * zNear) camUp))
                          (scale3 zNear camDir)) camPos;
          lL = add3 (add3 (add3 (scale3 (tan (fovx * (1/2)) * zNear) (neg3 camRight))
                                (scale3 (tan (fovy * (1/2)) * zNear) (neg3 camUp)))
                          (scale3 zNear camDir)) camPos;
          uR = add3 (add3 (add3 (scale3 (tan (fovx * (1/2)) * zNear) camRight)
                                (scale3 (tan (fovy * (1/2)) * zNear) camUp))
                          (scale3 zNear camDir)) camPos;
          lR = add3 (add3 (add3 (scale3 (tan (fovx * (1/2)) * zNear) camRight)
                                (scale3 (tan (fovy * (1/2)) * zNear) (neg3 camUp)))
                          (scale3 zNear camDir)) camPos;
          targetL = mix3 lL uL (uy uv);
          targetR = mix3 lR uR (uy uv);
          target = mix3 targetL targetR (ux uv);
          rayDir = normalize3 (sub3 target camPos)
      in (camPos, rayDir))"

definition mainImage_L ::
  "lighting_constants \<Rightarrow> (vec3 \<Rightarrow> vec3) \<Rightarrow> vec2 \<Rightarrow> real \<Rightarrow> vec2 \<Rightarrow> vec4 option" where
  "mainImage_L lp uninit iResolution iTime uv =
     (case cameraRay 7 iResolution iTime uv of
        (camPos, rayDir) \<Rightarrow> castRay_L lp uninit camPos rayDir)"

section \<open>The overlay shader: volume from a 3D texture\<close>

definition bbMin_O :: vec3 where
  "bbMin_O = vec3_of (- (1/2))"

definition bbMax_O :: vec3 where
  "bbMax_O = vec3_of (1/2)"

definition sampleNum_O :: int where
  "sampleNum_O = 150"

definition voxelWidth :: real where
  "voxelWidth = 1 / 64"

text \<open>
  The uniform \<^verbatim>\<open>textureSampler\<close> is the argument \<open>tex\<close>: the texel that
  \<^verbatim>\<open>texture\<close> returns at a coordinate.
\<close>

definition sampleVolume_O :: "(vec3 \<Rightarrow> vec4) \<Rightarrow> vec3 \<Rightarrow> real" where
  "sampleVolume_O tex texCoord = vr (tex texCoord)"

definition transferFunction_O :: "real \<Rightarrow> vec4" where
  "transferFunction_O value = (if value < 1/2 then vec4_of 0 else vec4_of value)"

text \<open>
  \<^verbatim>\<open>opacityCorrection\<close> is computed in binary32: the difference \<^verbatim>\<open>1.0 - alpha\<close>, the power
  and the second difference are rounded one after the other. GLSL leaves \<^verbatim>\<open>pow(x, y)\<close>
  undefined for a negative \<open>x\<close>, and for \<open>x = 0\<close> with \<open>y \<le> 0\<close>: \<open>pow32\<close> is \<open>None\<close>
  there, and elsewhere the real power, rounded (GLSL bounds the error of \<^verbatim>\<open>pow\<close> less
  tightly; the power is exact where the statements below depend on its value: at the
  exponent 1 and at the bases 0 and 1). \<^verbatim>\<open>accumulation\<close> stores the corrected opacity in
  its local \<^verbatim>\<open>color\<close>, which it does not read again.
\<close>

definition pow32 :: "real \<Rightarrow> real \<Rightarrow> real option" where
  "pow32 x y = (if x < 0 \<or> (x = 0 \<and> y \<le> 0) then None else Some (round32 (x powr y)))"

definition opacityCorrection :: "real \<Rightarrow> real \<Rightarrow> real option" where
  "opacityCorrection alpha samplingRatio =
     (case pow32 (round32 (1 - alpha)) samplingRatio of
        None \<Rightarrow> None
      | Some p \<Rightarrow> (let a_corrected = round32 (1 - p) in Some a_corrected))"

definition accumulation :: "real \<Rightarrow> real \<Rightarrow> vec4 \<Rightarrow> vec4" where
  "accumulation value opacityCorrectionFactor composedColor =
     (let color = transferFunction_O value;
          color = map_option (Vec4 (vr color) (vg color) (vb color))
                    (opacityCorrection (va color) opacityCorrectionFactor)
      in scale4 value (vec4_of (1/2)))"

text \<open>
  The step size is the quotient \<^verbatim>\<open>(bbMax.x - bbMin.x) / float(sampleNum)\<close>, rounded as
  the division rounds it; \<open>rayStep_O\<close> is the assignment \<^verbatim>\<open>t += rayStepSize\<close>, the sum
  rounded to binary32.
\<close>

definition rayStepSize_O :: real where
  "rayStepSize_O = round32 ((vx bbMax_O - vx bbMin_O) / real_of_int sampleNum_O)"

definition opacityCorrectionFactor_O :: real where
  "opacityCorrectionFactor_O = 1 / (real_of_int sampleNum_O * voxelWidth)"

text \<open>
  The body of the \<^verbatim>\<open>while\<close> loop up to the call of \<^verbatim>\<open>accumulation\<close>: the new
  \<^verbatim>\<open>finalColor\<close> from the old one and the current \<^verbatim>\<open>t\<close>.
\<close>

definition rayBody_O :: "(vec3 \<Rightarrow> vec4) \<Rightarrow> vec3 \<Rightarrow> vec3 \<Rightarrow> vec4 \<Rightarrow> real \<Rightarrow> vec4" where
  "rayBody_O tex camPos rayDir finalColor t =
     (let pos = add3 camPos (scale3 t rayDir);
          texCoord = add3 pos (vec3_of (1/2));
          value = sampleVolume_O tex texCoord
      in accumulation value opacityCorrectionFactor_O finalColor)"

definition rayStep_O :: "real \<Rightarrow> real" where
  "rayStep_O t = round32 (t + rayStepSize_O)"

text \<open>
  The \<^verbatim>\<open>while\<close> loop, on its three variables \<^verbatim>\<open>t\<close>, \<^verbatim>\<open>i\<close> and \<^verbatim>\<open>finalColor\<close>; the
  result is their value when the loop is left. The body assigns \<^verbatim>\<open>t\<close> and
  \<^verbatim>\<open>finalColor\<close> and leaves \<^verbatim>\<open>i\<close> as it is. Once \<^verbatim>\<open>t\<close> is so large that adding the step
  rounds back to \<^verbatim>\<open>t\<close>, the loop runs forever: the function is partial, and \<open>None\<close> is
  the loop that does not end.
\<close>

partial_function (option) rayLoop_O ::
  "(vec3 \<Rightarrow> vec4) \<Rightarrow> vec3 \<Rightarrow> vec3 \<Rightarrow> real \<Rightarrow> real \<Rightarrow> int \<Rightarrow> vec4 \<Rightarrow> (real \<times> int \<times> vec4) option" where
  "rayLoop_O tex camPos rayDir tFar t i finalColor =
     (if t < tFar \<and> i < sampleNum_O then
        rayLoop_O tex camPos rayDir tFar (rayStep_O t) i
          (rayBody_O tex camPos rayDir finalColor t)
      else Some (t, i, finalColor))"

text \<open>
  The part of \<^verbatim>\<open>mainImage\<close> from the bounding-box test on, as a function of the ray;
  \<open>None\<close> is the ray the box test does not model, or the loop that does not end.
\<close>

definition castRay_O :: "(vec3 \<Rightarrow> vec4) \<Rightarrow> vec3 \<Rightarrow> vec3 \<Rightarrow> vec4 option" where
  "castRay_O tex camPos rayDir =
     (case intersectBoundingBox bbMin_O bbMax_O camPos rayDir of
        None \<Rightarrow> None
      | Some (hit, tNear, tFar) \<Rightarrow>
          if \<not> hit then Some background
          else
            (case rayLoop_O tex camPos rayDir tFar tNear 0 (vec4_of 0) of
               None \<Rightarrow> None
             | Some (t, i, finalColor) \<Rightarrow>
                 let c = mix3 (rgb background) (rgb finalColor) (va finalColor)
                 in Some (Vec4 (vx c) (vy c) (vz c) 1)))"

definition mainImage_O :: "(vec3 \<Rightarrow> vec4) \<Rightarrow> vec2 \<Rightarrow> real \<Rightarrow> vec2 \<Rightarrow> vec4 option" where
  "mainImage_O tex iResolution iTime uv =
     (case cameraRay (3/2) iResolution iTime uv of
        (camPos, rayDir) \<Rightarrow> castRay_O tex camPos rayDir)"

section \<open>Where the samples are taken\<close>

text \<open>
  The two functions below follow the control flow of the two loops and collect, in order,
  where the volume is sampled: the positions handed to \<^verbatim>\<open>sampleVolume\<close> in the lighting
  shader, the values of \<^verbatim>\<open>t\<close> at which the body runs in the overlay shader. Lemma
  \<open>rayLoop_L_samples\<close> ties the first to its loop; \<open>rayLoop_O_run\<close> and
  \<open>raySamples_O_run\<close> give the result of the overlay loop and its samples from the same
  sequence of values of \<^verbatim>\<open>t\<close>.
\<close>

function raySamples_L ::
  "lighting_constants \<Rightarrow> (vec3 \<Rightarrow> vec3) \<Rightarrow> vec3 \<Rightarrow> int \<Rightarrow> vec3 \<Rightarrow> vec4 \<Rightarrow> vec3 list" where
  "raySamples_L lp uninit rayDir i pos finalColor =
     (if i < sampleNum_L then
        (if va finalColor > 99/100 then []
         else add3 pos (scale3 rayStepSize_L rayDir) #
              raySamples_L lp uninit rayDir (i + 1)
                (add3 pos (scale3 rayStepSize_L rayDir))
                (blend_L finalColor
                   (shade_L lp uninit rayDir (add3 pos (scale3 rayStepSize_L rayDir)))))
      else [])"
  by pat_completeness auto
termination
  by (relation "measure (\<lambda>(lp, uninit, rayDir, i, pos, finalColor). nat (sampleNum_L - i))") auto


text \<open>
  The samples of a whole ray: \<open>castSamples_L\<close> and \<open>castSamples_O\<close> start the two
  collecting functions as \<^verbatim>\<open>mainImage\<close> starts its loop, and give the empty list for a
  ray that misses the box.
\<close>

definition castSamples_L ::
  "lighting_constants \<Rightarrow> (vec3 \<Rightarrow> vec3) \<Rightarrow> vec3 \<Rightarrow> vec3 \<Rightarrow> vec3 list option" where
  "castSamples_L lp uninit camPos rayDir =
     (case intersectBoundingBox bbMin_L bbMax_L camPos rayDir of
        None \<Rightarrow> None
      | Some (hit, tNear0, tFar) \<Rightarrow>
          Some (let tNear = (if tNear0 < 0 then 0 else tNear0)
                in if \<not> hit then []
                   else raySamples_L lp uninit rayDir 0 (add3 camPos (scale3 tNear rayDir))
                          (vec4_of 0)))"


declare rayLoop_L.simps [simp del]
declare raySamples_L.simps [simp del]

section \<open>Rounding to binary32\<close>

text \<open>
  \<open>round32\<close> moves a number by at most half an \<open>ulp32\<close> (\<open>round32_error\<close>), leaves a
  binary32 number as it is (\<open>round32_exact\<close>, \<open>round32_idem\<close>) and keeps the interval
  \<open>[0, 1]\<close> (\<open>round32_unit\<close>); \<open>round32_eval\<close> computes it from the binade of its
  argument.
\<close>

lemma rne_of_int [simp]: "rne (real_of_int n) = n"
  by (simp add: rne_def)

lemma rne_near: "\<bar>real_of_int (rne x) - x\<bar> \<le> 1/2"
proof -
  have "real_of_int \<lfloor>x\<rfloor> \<le> x" and "x < real_of_int \<lfloor>x\<rfloor> + 1" by linarith+
  then show ?thesis by (auto simp: rne_def Let_def)
qed

lemma rne_down:
  assumes "0 \<le> f" and "f < 1/2"
  shows "rne (real_of_int n + f) = n"
proof -
  have "\<lfloor>real_of_int n + f\<rfloor> = n" using assms by linarith
  then show ?thesis using assms by (simp add: rne_def)
qed

lemma rne_up:
  assumes "1/2 < f" and "f < 1"
  shows "rne (real_of_int n + f) = n + 1"
proof -
  have "\<lfloor>real_of_int n + f\<rfloor> = n" using assms by linarith
  then show ?thesis using assms by (simp add: rne_def)
qed

lemma ulp32_pos: "0 < ulp32 x"
  by (simp add: ulp32_def)

lemma ulp32_binade:
  assumes "2 powr real_of_int e \<le> \<bar>x\<bar>" and "\<bar>x\<bar> < 2 powr real_of_int (e + 1)" and "- 126 \<le> e"
  shows "ulp32 x = 2 powr real_of_int (e - 23)"
proof -
  have "0 < \<bar>x\<bar>" using assms(1) powr_gt_zero [of 2 "real_of_int e"] by linarith
  then have "\<lfloor>log 2 \<bar>x\<bar>\<rfloor> = e"
    using assms(1,2) by (simp add: floor_log_eq_powr_iff)
  then show ?thesis using assms(3) by (simp add: ulp32_def)
qed

lemma round32_binade:
  assumes "2 powr real_of_int e \<le> \<bar>x\<bar>" and "\<bar>x\<bar> < 2 powr real_of_int (e + 1)" and "- 126 \<le> e"
  shows "round32 x = 2 powr real_of_int (e - 23) * real_of_int (rne (x / 2 powr real_of_int (e - 23)))"
proof -
  have "0 < \<bar>x\<bar>" using assms(1) powr_gt_zero [of 2 "real_of_int e"] by linarith
  then have "x \<noteq> 0" by simp
  then show ?thesis by (simp add: round32_def ulp32_binade [OF assms])
qed

lemma round32_error: "\<bar>round32 x - x\<bar> \<le> ulp32 x / 2"
proof (cases "x = 0")
  case True
  then show ?thesis using ulp32_pos [of x] by (simp add: round32_def)
next
  case False
  let ?u = "ulp32 x"
  have u: "0 < ?u" by (rule ulp32_pos)
  have "round32 x - x = ?u * (real_of_int (rne (x / ?u)) - x / ?u)"
    using False u by (simp add: round32_def algebra_simps)
  then have "\<bar>round32 x - x\<bar> = ?u * \<bar>real_of_int (rne (x / ?u)) - x / ?u\<bar>"
    using u by (simp add: abs_mult)
  also have "\<dots> \<le> ?u * (1/2)"
    using u rne_near [of "x / ?u"] by (intro mult_left_mono) simp_all
  finally show ?thesis by simp
qed

lemma ulp32_bound:
  assumes "x \<noteq> 0"
  shows "ulp32 x \<le> \<bar>x\<bar> / 2 ^ 23 + 2 powr (- 149)"
proof -
  define e where "e = \<lfloor>log 2 \<bar>x\<bar>\<rfloor>"
  have pos: "0 < \<bar>x\<bar>" using assms by simp
  have le: "2 powr real_of_int e \<le> \<bar>x\<bar>"
    using pos floor_log_eq_powr_iff [of "\<bar>x\<bar>" 2 e] by (simp add: e_def)
  show ?thesis
  proof (cases "e - 23 \<le> - 149")
    case True
    then have "ulp32 x = 2 powr (- 149)" by (simp add: ulp32_def e_def max_def)
    then show ?thesis by simp
  next
    case False
    then have "ulp32 x = 2 powr real_of_int (e - 23)" by (simp add: ulp32_def e_def max_def)
    also have "\<dots> = 2 powr real_of_int e / 2 ^ 23"
      by (simp add: powr_diff)
    also have "\<dots> \<le> \<bar>x\<bar> / 2 ^ 23"
      using le by (simp add: divide_right_mono)
    finally show ?thesis by (simp add: add_increasing2)
  qed
qed

lemma round32_near: "\<bar>round32 x - x\<bar> \<le> \<bar>x\<bar> / 2 ^ 24 + 2 powr (- 150)"
proof (cases "x = 0")
  case True
  then show ?thesis by (simp add: round32_def)
next
  case False
  have "\<bar>round32 x - x\<bar> \<le> ulp32 x / 2" by (rule round32_error)
  also have "\<dots> \<le> (\<bar>x\<bar> / 2 ^ 23 + 2 powr (- 149)) / 2"
    using ulp32_bound [OF False] by simp
  also have "\<dots> = \<bar>x\<bar> / 2 ^ 24 + 2 powr (- 150)"
    by (simp add: powr_minus add_divide_distrib)
  finally show ?thesis .
qed

lemma round32_exact:
  assumes x: "x = real_of_int m * 2 powr real_of_int p" and m: "\<bar>m\<bar> < 2 ^ 24" and p: "- 149 \<le> p"
  shows "round32 x = x"
proof (cases "x = 0")
  case True
  then show ?thesis by (simp add: round32_def)
next
  case False
  then have m0: "m \<noteq> 0" using x by auto
  define e where "e = \<lfloor>log 2 \<bar>x\<bar>\<rfloor>"
  define q where "q = max (e - 23) (- 149)"
  have pos: "0 < \<bar>x\<bar>" using False by simp
  have "\<bar>x\<bar> = real_of_int \<bar>m\<bar> * 2 powr real_of_int p"
    by (simp add: x abs_mult)
  also have "\<dots> < 2 ^ 24 * 2 powr real_of_int p"
  proof -
    have "real_of_int \<bar>m\<bar> < 2 ^ 24" using m by (metis of_int_less_iff of_int_numeral of_int_power)
    then show ?thesis by (simp add: mult_strict_right_mono)
  qed
  also have "\<dots> = 2 powr real_of_int (24 + p)"
    by (simp add: powr_add powr_realpow [symmetric])
  finally have "\<bar>x\<bar> < 2 powr real_of_int (24 + p)" .
  then have "log 2 \<bar>x\<bar> < real_of_int (24 + p)"
    using pos by (simp add: log_less_iff)
  then have "e < 24 + p" unfolding e_def by linarith
  then have qp: "q \<le> p" using p by (simp add: q_def)
  define n where "n = nat (p - q)"
  have pq: "p = q + int n" using qp by (simp add: n_def)
  have u: "ulp32 x = 2 powr real_of_int q"
    unfolding ulp32_def q_def e_def by (rule refl)
  have "x / ulp32 x = real_of_int m * (2 powr real_of_int p / 2 powr real_of_int q)"
    unfolding u by (simp add: x)
  also have "2 powr real_of_int p / 2 powr real_of_int q = 2 ^ n"
    by (simp add: pq powr_add powr_realpow)
  finally have "x / ulp32 x = real_of_int (m * 2 ^ n)" by simp
  then have r: "rne (x / ulp32 x) = m * 2 ^ n" by (simp only: rne_of_int)
  have "round32 x = ulp32 x * real_of_int (rne (x / ulp32 x))"
    unfolding round32_def using False by (rule if_not_P)
  also have "\<dots> = 2 powr real_of_int q * real_of_int (m * 2 ^ n)"
    unfolding r unfolding u by (rule refl)
  also have "\<dots> = real_of_int m * (2 powr real_of_int q * 2 ^ n)" by simp
  also have "2 powr real_of_int q * 2 ^ n = 2 powr real_of_int p"
    by (simp add: pq powr_add powr_realpow)
  finally show ?thesis by (simp add: x)
qed

lemma rne_unique:
  assumes "\<bar>x - real_of_int n\<bar> < 1/2"
  shows "rne x = n"
proof -
  have "\<bar>real_of_int (rne x) - x\<bar> \<le> 1/2" by (rule rne_near)
  with assms have "\<bar>real_of_int (rne x) - real_of_int n\<bar> < 1" by linarith
  then have "real_of_int \<bar>rne x - n\<bar> < 1" by simp
  then have "\<bar>rne x - n\<bar> < 1" by linarith
  then show ?thesis by simp
qed

lemma rne_le_int:
  assumes "x \<le> real_of_int n"
  shows "rne x \<le> n"
proof -
  have "\<bar>real_of_int (rne x) - x\<bar> \<le> 1/2" by (rule rne_near)
  with assms have "real_of_int (rne x) < real_of_int n + 1" by linarith
  then show ?thesis by linarith
qed

lemma rne_ge_int:
  assumes "real_of_int n \<le> x"
  shows "n \<le> rne x"
proof -
  have "\<bar>real_of_int (rne x) - x\<bar> \<le> 1/2" by (rule rne_near)
  with assms have "real_of_int n - 1 < real_of_int (rne x)" by linarith
  then show ?thesis by linarith
qed

lemma round32_eval:
  assumes "2 powr real_of_int e \<le> \<bar>x\<bar>" and "\<bar>x\<bar> < 2 powr real_of_int (e + 1)" and "- 126 \<le> e"
    and "\<bar>x / 2 powr real_of_int (e - 23) - real_of_int n\<bar> < 1/2"
  shows "round32 x = 2 powr real_of_int (e - 23) * real_of_int n"
  by (simp only: round32_binade [OF assms(1-3)] rne_unique [OF assms(4)])

lemma round32_0 [simp]: "round32 0 = 0"
  by (simp add: round32_def)

lemma round32_1 [simp]: "round32 1 = 1"
  using round32_exact [of 1 1 0] by simp

lemma round32_step: "round32 (1/150) = 7158279/1073741824"
  using round32_eval [of "- 8" "1/150" 14316558] by (simp add: powr_minus)


lemma round32_idem: "round32 (round32 x) = round32 x"
proof (cases "x = 0")
  case True
  then show ?thesis by simp
next
  case False
  define e where "e = \<lfloor>log 2 \<bar>x\<bar>\<rfloor>"
  define q where "q = max (e - 23) (- 149)"
  define k where "k = rne (x / 2 powr real_of_int q)"
  have u: "ulp32 x = 2 powr real_of_int q"
    unfolding ulp32_def q_def e_def by (rule refl)
  have r: "round32 x = real_of_int k * 2 powr real_of_int q"
    using False by (simp add: round32_def u k_def)
  have pos: "0 < \<bar>x\<bar>" using False by simp
  have "\<bar>x\<bar> < 2 powr real_of_int (e + 1)"
    using pos floor_log_eq_powr_iff [of "\<bar>x\<bar>" 2 e] by (simp add: e_def)
  then have "\<bar>x\<bar> / 2 powr real_of_int q < 2 powr real_of_int (e + 1) / 2 powr real_of_int q"
    by (simp add: divide_strict_right_mono)
  also have "\<dots> = 2 powr real_of_int (e + 1 - q)"
    by (simp add: powr_diff)
  also have "\<dots> \<le> 2 powr real_of_int 24"
    by (intro powr_mono) (simp_all add: q_def)
  also have "\<dots> = real_of_int 16777216" by simp
  finally have b: "\<bar>x / 2 powr real_of_int q\<bar> < real_of_int 16777216"
    by (simp add: abs_divide)
  then have b1: "x / 2 powr real_of_int q \<le> real_of_int 16777216"
    and b2: "real_of_int (- 16777216) \<le> x / 2 powr real_of_int q" by linarith+
  have k1: "k \<le> 16777216" unfolding k_def using b1 by (rule rne_le_int)
  have k2: "- 16777216 \<le> k" unfolding k_def using b2 by (rule rne_ge_int)
  have q: "- 149 \<le> q" by (simp add: q_def)
  consider "\<bar>k\<bar> < 2 ^ 24" | "k = 16777216" | "k = - 16777216"
    using k1 k2 by fastforce
  then show ?thesis
  proof cases
    case 1
    from round32_exact [OF r 1 q] show ?thesis .
  next
    case 2
    have "round32 x = real_of_int 1 * 2 powr real_of_int (q + 24)"
      unfolding r 2 by (simp add: powr_add)
    from round32_exact [OF this] q show ?thesis by simp
  next
    case 3
    have "round32 x = real_of_int (- 1) * 2 powr real_of_int (q + 24)"
      unfolding r 3 by (simp add: powr_add)
    from round32_exact [OF this] q show ?thesis by simp
  qed
qed

lemma round32_unit:
  assumes "0 \<le> x" and "x \<le> 1"
  shows "0 \<le> round32 x \<and> round32 x \<le> 1 \<and> \<bar>round32 x - x\<bar> \<le> 1 / 33554432"
proof (cases "x = 0 \<or> x = 1")
  case True
  then show ?thesis by auto
next
  case False
  then have x: "0 < x" "x < 1" using assms by simp_all
  define e where "e = \<lfloor>log 2 \<bar>x\<bar>\<rfloor>"
  define q where "q = max (e - 23) (- 149)"
  define k where "k = rne (x / 2 powr real_of_int q)"
  have u: "ulp32 x = 2 powr real_of_int q"
    unfolding ulp32_def q_def e_def by (rule refl)
  have r: "round32 x = 2 powr real_of_int q * real_of_int k"
    using x by (simp add: round32_def u k_def)
  have "log 2 \<bar>x\<bar> < 0" using x by simp
  then have "e < 0" unfolding e_def by linarith
  then have q: "q \<le> - 24" by (simp add: q_def)
  define n where "n = nat (- q)"
  have qn: "q = - int n" using q by (simp add: n_def)
  have inv: "1 / 2 powr real_of_int q = real_of_int (2 ^ n)"
    by (simp add: qn powr_minus powr_realpow field_simps)
  have "real_of_int 0 \<le> x / 2 powr real_of_int q" using x by simp
  then have k0: "0 \<le> k" unfolding k_def by (rule rne_ge_int)
  have "x / 2 powr real_of_int q \<le> 1 / 2 powr real_of_int q"
    using x by (simp add: divide_right_mono)
  then have "x / 2 powr real_of_int q \<le> real_of_int (2 ^ n)" by (simp only: inv)
  then have k1: "k \<le> 2 ^ n" unfolding k_def by (rule rne_le_int)
  have lo: "0 \<le> round32 x" unfolding r using k0 by simp
  have "2 powr real_of_int q * real_of_int k \<le> 2 powr real_of_int q * real_of_int (2 ^ n)"
    using k1 by (intro mult_left_mono) simp_all
  also have "\<dots> = 1" using inv by (simp add: field_simps)
  finally have hi: "round32 x \<le> 1" unfolding r .
  have "2 powr real_of_int q \<le> 2 powr real_of_int (- 24)"
    using q by (intro powr_mono) simp_all
  also have "\<dots> = 1 / 16777216" by (simp add: powr_minus)
  finally have "ulp32 x \<le> 1 / 16777216" unfolding u .
  with round32_error [of x] have "\<bar>round32 x - x\<bar> \<le> 1 / 33554432" by simp
  with lo hi show ?thesis by blast
qed

section \<open>Four rays\<close>

text \<open>
  The statements below are tried on four rays that start at a position of the camera. At a
  time with \<open>cos (iTime / 2) = 3/5\<close> and \<open>sin (iTime / 2) = 4/5\<close> the camera of the lighting
  shader is at \<open>(21/5, 7/2, 28/5)\<close> and that of the overlay shader at \<open>(9/10, 3/4, 6/5)\<close>
  (\<open>camera_positions\<close>). The directions are unit vectors (\<open>unit_directions\<close>), as
  \<^verbatim>\<open>normalize\<close> returns them; they were picked, by a numerical evaluation of the camera
  that is no part of the proofs, inside the field of view of a 4 : 3 viewport. In each
  shader one ray misses the box and one hits it; the one that hits the box of the lighting
  shader cuts an edge of it, on a stretch shorter than one step.
\<close>

lemma intersect_L_miss:
  "intersectBoundingBox bbMin_L bbMax_L (Vec3 (21/5) (7/2) (28/5))
       (Vec3 (- (9/11)) (- (6/11)) (- (2/11)))
     = Some (False, 231/20, 847/90)"
  by (simp add: intersectBoundingBox_def nonzero3_def tmin_def tmax_def ttop_def tbot_def
      invR_def div3_def mul3_def sub3_def min3_def max3_def vec3_of_def bbMin_L_def bbMax_L_def)


lemma intersect_O_miss:
  "intersectBoundingBox bbMin_O bbMax_O (Vec3 (9/10) (3/4) (6/5))
       (Vec3 (- (2/3)) (- (2/3)) (- (1/3)))
     = Some (False, 21/10, 15/8)"
  by (simp add: intersectBoundingBox_def nonzero3_def tmin_def tmax_def ttop_def tbot_def
      invR_def div3_def mul3_def sub3_def min3_def max3_def vec3_of_def bbMin_O_def bbMax_O_def)

lemma intersect_O_hit:
  "intersectBoundingBox bbMin_O bbMax_O (Vec3 (9/10) (3/4) (6/5))
       (Vec3 (- (2/3)) (- (1/3)) (- (2/3)))
     = Some (True, 21/20, 21/10)"
  by (simp add: intersectBoundingBox_def nonzero3_def tmin_def tmax_def ttop_def tbot_def
      invR_def div3_def mul3_def sub3_def min3_def max3_def vec3_of_def bbMin_O_def bbMax_O_def)

lemma unit_directions:
  "length3 (Vec3 (- (9/11)) (- (6/11)) (- (2/11))) = 1"
  "length3 (Vec3 (- (161/201)) (- (112/201)) (- (44/201))) = 1"
  "length3 (Vec3 (- (2/3)) (- (2/3)) (- (1/3))) = 1"
  "length3 (Vec3 (- (2/3)) (- (1/3)) (- (2/3))) = 1"
  by (simp_all add: length3_def dot3_def)

lemma camera_positions:
  assumes "cos (iTime * (1/2)) = 3/5" and "sin (iTime * (1/2)) = 4/5"
  shows "fst (cameraRay 7 iResolution iTime uv) = Vec3 (21/5) (7/2) (28/5)"
    and "fst (cameraRay (3/2) iResolution iTime uv) = Vec3 (9/10) (3/4) (6/5)"
  using assms by (simp_all add: cameraRay_def Let_def scale3_def)

section \<open>Properties of the bounding-box test\<close>

lemma intersectBoundingBox_Some:
  assumes "nonzero3 rayDir"
  shows "intersectBoundingBox bbMin bbMax rayOrig rayDir =
     Some (max (max (vx (tmin bbMin bbMax rayOrig rayDir)) (vy (tmin bbMin bbMax rayOrig rayDir)))
               (max (vx (tmin bbMin bbMax rayOrig rayDir)) (vz (tmin bbMin bbMax rayOrig rayDir)))
           < min (min (vx (tmax bbMin bbMax rayOrig rayDir)) (vy (tmax bbMin bbMax rayOrig rayDir)))
                 (min (vx (tmax bbMin bbMax rayOrig rayDir)) (vz (tmax bbMin bbMax rayOrig rayDir))),
           max (max (vx (tmin bbMin bbMax rayOrig rayDir)) (vy (tmin bbMin bbMax rayOrig rayDir)))
               (max (vx (tmin bbMin bbMax rayOrig rayDir)) (vz (tmin bbMin bbMax rayOrig rayDir))),
           min (min (vx (tmax bbMin bbMax rayOrig rayDir)) (vy (tmax bbMin bbMax rayOrig rayDir)))
               (min (vx (tmax bbMin bbMax rayOrig rayDir)) (vz (tmax bbMin bbMax rayOrig rayDir))))"
  unfolding intersectBoundingBox_def Let_def using assms
  by (simp only: if_False simp_thms)

lemma intersectBoundingBox_None:
  "\<not> nonzero3 rayDir \<Longrightarrow> intersectBoundingBox bbMin bbMax rayOrig rayDir = None"
  by (simp add: intersectBoundingBox_def)



lemma hit_nonzero:
  assumes "intersectBoundingBox bbMin bbMax camPos rayDir = Some r"
  shows "nonzero3 rayDir"
proof (rule ccontr)
  assume "\<not> nonzero3 rayDir"
  then have "intersectBoundingBox bbMin bbMax camPos rayDir = None"
    by (rule intersectBoundingBox_None)
  with assms show False by simp
qed

lemma hit_order:
  assumes "intersectBoundingBox bbMin bbMax camPos rayDir = Some (True, tNear, tFar)"
  shows "tNear < tFar"
proof -
  have nz: "nonzero3 rayDir" using assms by (rule hit_nonzero)
  from assms show ?thesis
    unfolding intersectBoundingBox_Some [OF nz] by blast
qed









lemma fmax_Fin: "fmax (Fin a) (Fin b) = Fin (max a b)"
  by (auto simp: fmax_def)

lemma fmin_Fin: "fmin (Fin a) (Fin b) = Fin (min a b)"
  by (auto simp: fmin_def)








lemma intersectBoundingBox_ieee_finite:
  assumes "nonzero3 rayDir"
  shows "intersectBoundingBox_ieee bbMin bbMax rayOrig sg rayDir = (hit, Fin tNear, Fin tFar)
         \<longleftrightarrow> intersectBoundingBox bbMin bbMax rayOrig rayDir = Some (hit, tNear, tFar)"
proof -
  from assms have nz: "vx rayDir \<noteq> 0" "vy rayDir \<noteq> 0" "vz rayDir \<noteq> 0"
    by (simp_all add: nonzero3_def)
  have lo: "tmin_ieee bbMin bbMax rayOrig sg rayDir
      = FVec3 (Fin (vx (tmin bbMin bbMax rayOrig rayDir))) (Fin (vy (tmin bbMin bbMax rayOrig rayDir)))
              (Fin (vz (tmin bbMin bbMax rayOrig rayDir)))"
    using nz by (simp add: tmin_ieee_def ttop_ieee_def tbot_ieee_def fmin3_def fmul3_def
        invR_ieee_def recip_def fmin_Fin tmin_def ttop_def tbot_def invR_def min3_def mul3_def
        div3_def sub3_def vec3_of_def)
  have hi: "tmax_ieee bbMin bbMax rayOrig sg rayDir
      = FVec3 (Fin (vx (tmax bbMin bbMax rayOrig rayDir))) (Fin (vy (tmax bbMin bbMax rayOrig rayDir)))
              (Fin (vz (tmax bbMin bbMax rayOrig rayDir)))"
    using nz by (simp add: tmax_ieee_def ttop_ieee_def tbot_ieee_def fmax3_def fmul3_def
        invR_ieee_def recip_def fmax_Fin tmax_def ttop_def tbot_def invR_def max3_def mul3_def
        div3_def sub3_def vec3_of_def)
  show ?thesis
    unfolding intersectBoundingBox_Some [OF assms] intersectBoundingBox_ieee_def Let_def lo hi
    by (simp only: fvec3.sel fmax_Fin fmin_Fin flt.simps prod.inject option.inject fl.inject)
qed




section \<open>Rays that miss the box\<close>

lemma castRay_L_miss:
  "intersectBoundingBox bbMin_L bbMax_L camPos rayDir = Some (False, tNear, tFar)
   \<Longrightarrow> castRay_L lp uninit camPos rayDir = Some background"
  by (simp add: castRay_L_def)

lemma castRay_O_miss:
  "intersectBoundingBox bbMin_O bbMax_O camPos rayDir = Some (False, tNear, tFar)
   \<Longrightarrow> castRay_O tex camPos rayDir = Some background"
  by (simp add: castRay_O_def)

text \<open>The same for the whole of \<^verbatim>\<open>mainImage\<close>, with the ray that the camera produces.\<close>

lemma mainImage_L_miss:
  assumes "cameraRay 7 iResolution iTime uv = (camPos, rayDir)"
    and "intersectBoundingBox bbMin_L bbMax_L camPos rayDir = Some (False, tNear, tFar)"
  shows "mainImage_L lp uninit iResolution iTime uv = Some background"
  using assms by (simp add: mainImage_L_def castRay_L_miss)

lemma mainImage_O_miss:
  assumes "cameraRay (3/2) iResolution iTime uv = (camPos, rayDir)"
    and "intersectBoundingBox bbMin_O bbMax_O camPos rayDir = Some (False, tNear, tFar)"
  shows "mainImage_O tex iResolution iTime uv = Some background"
  using assms by (simp add: mainImage_O_def castRay_O_miss)

text \<open>
  Claim C6. For a pixel whose ray does not hit the bounding box (\<^verbatim>\<open>intersectBoundingBox\<close>
  returns false), the fragment colour is the background colour \<open>(0, 0, 0, 1)\<close> exactly,
  in the lighting shader and in the overlay shader.
\<close>

theorem miss_gives_background:
  "(intersectBoundingBox bbMin_L bbMax_L camPos rayDir = Some (False, tNear, tFar)
      \<longrightarrow> castRay_L lp uninit camPos rayDir = Some (Vec4 0 0 0 1))
   \<and> (intersectBoundingBox bbMin_O bbMax_O camPos rayDir = Some (False, tNear, tFar)
      \<longrightarrow> castRay_O tex camPos rayDir = Some (Vec4 0 0 0 1))"
  by (simp add: castRay_L_def castRay_O_def background_def)

theorem miss_gives_background_witness:
  "intersectBoundingBox bbMin_L bbMax_L (Vec3 (21/5) (7/2) (28/5))
       (Vec3 (- (9/11)) (- (6/11)) (- (2/11)))
     = Some (False, 231/20, 847/90)
   \<and> castRay_L lights_L (\<lambda>p. Vec3 0 0 0) (Vec3 (21/5) (7/2) (28/5))
       (Vec3 (- (9/11)) (- (6/11)) (- (2/11)))
     = Some (Vec4 0 0 0 1)
   \<and> intersectBoundingBox bbMin_O bbMax_O (Vec3 (9/10) (3/4) (6/5))
       (Vec3 (- (2/3)) (- (2/3)) (- (1/3)))
     = Some (False, 21/10, 15/8)
   \<and> castRay_O (\<lambda>p. vec4_of 1) (Vec3 (9/10) (3/4) (6/5)) (Vec3 (- (2/3)) (- (2/3)) (- (1/3)))
     = Some (Vec4 0 0 0 1)"
  using intersect_L_miss intersect_O_miss
    miss_gives_background [of "Vec3 (21/5) (7/2) (28/5)" "Vec3 (- (9/11)) (- (6/11)) (- (2/11))"
      "231/20" "847/90" lights_L "\<lambda>p. Vec3 0 0 0"]
    miss_gives_background [of "Vec3 (9/10) (3/4) (6/5)" "Vec3 (- (2/3)) (- (2/3)) (- (1/3))"
      "21/10" "15/8" _ _ "\<lambda>p. vec4_of 1"]
  by simp

section \<open>The accumulation step and the opacity correction of the overlay shader\<close>

text \<open>
  Claim C4. In the overlay shader, for every accumulated colour and every sample value,
  \<^verbatim>\<open>accumulation\<close> throws the accumulated colour away and sets the composed colour to
  \<open>(0.5, 0.5, 0.5, 0.5)\<close> times the sample value: the result is that product, whatever
  colour came in, and no front-to-back blending takes place.
\<close>

theorem accumulation_placeholder:
  "accumulation value opacityCorrectionFactor composedColor
     = scale4 value (Vec4 (1/2) (1/2) (1/2) (1/2))
   \<and> accumulation value opacityCorrectionFactor composedColor
     = accumulation value opacityCorrectionFactor otherColor"
  by (simp add: accumulation_def Let_def vec4_of_def)

lemma round32_upper_half:
  assumes "1/2 \<le> x" and "x \<le> 1" and "round32 x = x"
  shows "round32 (1 - x) = 1 - x"
proof (cases "x = 1")
  case True
  then show ?thesis by simp
next
  case False
  then have x: "x < 1" using assms by simp
  define k where "k = rne (x / 2 powr real_of_int (- 1 - 23))"
  have "round32 x = 2 powr real_of_int (- 1 - 23) * real_of_int k"
    unfolding k_def
    by (rule round32_binade) (use assms x in \<open>simp_all add: powr_minus\<close>)
  then have e: "x = real_of_int k / 16777216"
    using assms(3) by (simp add: powr_minus)
  have k1: "k \<le> 16777216" using x unfolding e by simp
  have k2: "8388608 \<le> k" using assms(1) unfolding e by simp
  have "1 - x = real_of_int (16777216 - k) * 2 powr real_of_int (- 24)"
    unfolding e by (simp add: powr_minus field_simps)
  then show ?thesis
    by (rule round32_exact) (use k1 k2 in simp_all)
qed

lemma opacityCorrection_value:
  assumes "0 \<le> alpha" and "alpha \<le> 1"
  shows "opacityCorrection alpha 1 = Some (round32 (1 - round32 (1 - alpha)))"
proof -
  define y where "y = round32 (1 - alpha)"
  have "0 \<le> y" using round32_unit [of "1 - alpha"] assms by (simp add: y_def)
  then have "pow32 y 1 = Some (round32 y)" by (simp add: pow32_def)
  also have "round32 y = y" unfolding y_def by (rule round32_idem)
  finally show ?thesis by (simp add: opacityCorrection_def y_def)
qed

lemma round32_one_tenth:
  "round32 (1 - 13421773/134217728) = 15099494/16777216"
  using round32_eval [of "- 1" "1 - 13421773/134217728" 15099494] by (simp add: powr_minus)

text \<open>
  Claim C5, as the specification states it: the opacity correction is
  \<open>1 - (1 - alpha)\<close> to the power \<^verbatim>\<open>samplingRatio\<close>, and under the ratio 1 it is the
  identity, \<^verbatim>\<open>opacityCorrection(alpha, 1.0) == alpha\<close> for every \<open>alpha\<close> between 0 and 1.

  The shader computes in binary32. For \<open>alpha = 13421773 / 2 ^ 27\<close>, the \<^verbatim>\<open>float\<close> \<^verbatim>\<open>0.1F\<close>,
  the difference \<^verbatim>\<open>1.0F - alpha\<close> is rounded to \<open>15099494 / 2 ^ 24\<close>, and the result is
  \<open>13421776 / 2 ^ 27\<close>, three units in the last place above \<open>alpha\<close>.
\<close>

theorem opacityCorrection_rounds:
  "(0::real) \<le> 13421773/134217728 \<and> (13421773/134217728 :: real) \<le> 1
   \<and> round32 (13421773/134217728) = 13421773/134217728
   \<and> opacityCorrection (13421773/134217728) 1 = Some (13421776/134217728)
   \<and> opacityCorrection (13421773/134217728) 1 \<noteq> Some (13421773/134217728)"
proof -
  have a: "round32 (13421773/134217728) = 13421773/134217728"
    using round32_exact [of "13421773/134217728" 13421773 "- 27"] by (simp add: powr_minus)
  have b: "round32 (1 - 15099494/16777216) = 1677722/16777216"
    using round32_exact [of "1 - 15099494/16777216" 1677722 "- 24"] by (simp add: powr_minus)
  have "opacityCorrection (13421773/134217728) 1
      = Some (round32 (1 - round32 (1 - 13421773/134217728)))"
    by (rule opacityCorrection_value) simp_all
  also have "\<dots> = Some (13421776/134217728)"
    unfolding round32_one_tenth b by simp
  finally have c: "opacityCorrection (13421773/134217728) 1 = Some (13421776/134217728)" .
  from a c show ?thesis by simp
qed

text \<open>
  Claim C5, amended. The opacity correction is \<open>1 - (1 - alpha)\<close> to the power
  \<^verbatim>\<open>samplingRatio\<close>, each of the three operations rounded to binary32. Under the ratio 1
  and for every \<open>alpha\<close> between 0 and 1 the result lies between 0 and 1 and differs from
  \<open>alpha\<close> by at most \<open>1 / 2 ^ 24\<close>; it is \<open>alpha\<close> itself when \<open>alpha\<close> is a binary32
  number of at least \<open>1/2\<close>.
\<close>

theorem opacityCorrection_unit_ratio:
  assumes "0 \<le> alpha" and "alpha \<le> 1"
  shows "(0 < samplingRatio \<longrightarrow>
            (\<exists>r. opacityCorrection alpha samplingRatio = Some r
               \<and> r = round32 (1 - round32 (round32 (1 - alpha) powr samplingRatio))
               \<and> 0 \<le> r \<and> r \<le> 1))
       \<and> (\<exists>r. opacityCorrection alpha 1 = Some r \<and> 0 \<le> r \<and> r \<le> 1
              \<and> \<bar>r - alpha\<bar> \<le> 1 / 16777216
              \<and> (1/2 \<le> alpha \<and> round32 alpha = alpha \<longrightarrow> r = alpha))"
proof -
  define y where "y = round32 (1 - alpha)"
  define r where "r = round32 (1 - y)"
  have y: "0 \<le> y" "y \<le> 1" "\<bar>y - (1 - alpha)\<bar> \<le> 1 / 33554432"
    using round32_unit [of "1 - alpha"] assms by (simp_all add: y_def)
  have r: "0 \<le> r" "r \<le> 1" "\<bar>r - (1 - y)\<bar> \<le> 1 / 33554432"
    using round32_unit [of "1 - y"] y by (simp_all add: r_def)
  have v: "opacityCorrection alpha 1 = Some r"
    unfolding r_def y_def using assms by (rule opacityCorrection_value)
  have near: "\<bar>r - alpha\<bar> \<le> 1 / 16777216" using y(3) r(3) by linarith
  have exact: "r = alpha" if "1/2 \<le> alpha \<and> round32 alpha = alpha"
  proof -
    from that assms have "y = 1 - alpha"
      unfolding y_def by (intro round32_upper_half) simp_all
    then show ?thesis using that by (simp add: r_def)
  qed
  have g: "\<exists>r. opacityCorrection alpha samplingRatio = Some r
               \<and> r = round32 (1 - round32 (round32 (1 - alpha) powr samplingRatio))
               \<and> 0 \<le> r \<and> r \<le> 1"
    if "0 < samplingRatio"
  proof -
    define p where "p = round32 (y powr samplingRatio)"
    have "0 \<le> y powr samplingRatio" by simp
    moreover have "y powr samplingRatio \<le> 1"
      using that y(1,2) by (intro powr_le1) simp_all
    ultimately have p: "0 \<le> p" "p \<le> 1"
      using round32_unit [of "y powr samplingRatio"] by (simp_all add: p_def)
    then have "0 \<le> round32 (1 - p) \<and> round32 (1 - p) \<le> 1"
      using round32_unit [of "1 - p"] by simp
    moreover have "opacityCorrection alpha samplingRatio = Some (round32 (1 - p))"
      using that y(1) by (simp add: opacityCorrection_def pow32_def y_def [symmetric] p_def)
    ultimately show ?thesis unfolding p_def y_def by blast
  qed
  from g v r(1,2) near exact show ?thesis by blast
qed

theorem opacityCorrection_unit_ratio_witness:
  "(0::real) \<le> 13421773/134217728 \<and> (13421773/134217728 :: real) \<le> 1
   \<and> \<bar>the (opacityCorrection (13421773/134217728) 1) - 13421773/134217728\<bar> \<le> 1 / 16777216
   \<and> (1/2 :: real) \<le> 3/4 \<and> (3/4 :: real) \<le> 1 \<and> round32 (3/4) = 3/4
   \<and> opacityCorrection (3/4) 1 = Some (3/4)
   \<and> opacityCorrection (3/4) 2 = Some (15/16)"
proof -
  have a: "round32 (3/4) = 3/4"
    using round32_exact [of "3/4" 3 "- 2"] by (simp add: powr_minus)
  have b: "round32 (1/4) = 1/4"
    using round32_exact [of "1/4" 1 "- 2"] by (simp add: powr_minus)
  have c: "round32 (1/16) = 1/16"
    using round32_exact [of "1/16" 1 "- 4"] by (simp add: powr_minus)
  have d: "round32 (15/16) = 15/16"
    using round32_exact [of "15/16" 15 "- 4"] by (simp add: powr_minus)
  have p: "(1/4 :: real) powr 2 = 1/16"
    by (simp add: powr_numeral power2_eq_square)
  from opacityCorrection_unit_ratio [of "13421773/134217728" 1]
  obtain r where "opacityCorrection (13421773/134217728) 1 = Some r"
    and "\<bar>r - 13421773/134217728\<bar> \<le> 1 / 16777216"
    by auto
  then have e: "\<bar>the (opacityCorrection (13421773/134217728) 1) - 13421773/134217728\<bar>
      \<le> 1 / 16777216" by simp
  from opacityCorrection_unit_ratio [of "3/4" 2] a
  have f: "opacityCorrection (3/4) 1 = Some (3/4)"
    and g: "opacityCorrection (3/4) 2 = Some (15/16)"
    by (auto simp: b c d p)
  from a e f g show ?thesis by simp
qed

section \<open>The lighting function\<close>

lemma shade_L_indep: "shade_L lp uninit rayDir pos = shade_L lp' uninit' rayDir pos"
  by (simp add: shade_L_def lighting_def Let_def)

lemma rayLoop_L_indep:
  "rayLoop_L lp uninit rayDir i pos finalColor = rayLoop_L lp' uninit' rayDir i pos finalColor"
proof (induction lp uninit rayDir i pos finalColor rule: rayLoop_L.induct)
  case (1 lp uninit rayDir i pos finalColor)
  show ?case
  proof (cases "i < sampleNum_L \<and> \<not> va finalColor > 99/100")
    case True
    then have "rayLoop_L lp uninit rayDir (i + 1) (add3 pos (scale3 rayStepSize_L rayDir))
        (blend_L finalColor (shade_L lp uninit rayDir (add3 pos (scale3 rayStepSize_L rayDir))))
      = rayLoop_L lp' uninit' rayDir (i + 1) (add3 pos (scale3 rayStepSize_L rayDir))
        (blend_L finalColor (shade_L lp uninit rayDir (add3 pos (scale3 rayStepSize_L rayDir))))"
      using "1.IH" by simp
    with True show ?thesis
      by (simp add: rayLoop_L.simps [of lp uninit rayDir i] rayLoop_L.simps [of lp' uninit' rayDir i]
          shade_L_indep [of lp uninit _ _ lp' uninit'])
  next
    case False
    then show ?thesis
      by (auto simp: rayLoop_L.simps [of lp uninit rayDir i] rayLoop_L.simps [of lp' uninit' rayDir i])
  qed
qed

text \<open>
  Claim C9. In the lighting shader, \<^verbatim>\<open>lighting\<close> returns its argument \<^verbatim>\<open>diffuseColor\<close>
  as it is, for every normal and eye direction. So the colour of the pixel does not depend
  on the gradient (here: on what the uninitialised result of the gradient function holds)
  nor on the light direction, the light and specular colours, the ambient, diffuse and
  specular contributions and the exponent.
\<close>

theorem lighting_returns_diffuseColor:
  "lighting lp diffuseColor normal eyeDir = diffuseColor
   \<and> castRay_L lp uninit camPos rayDir = castRay_L lp' uninit' camPos rayDir
   \<and> mainImage_L lp uninit iResolution iTime uv = mainImage_L lp' uninit' iResolution iTime uv"
proof -
  have c: "castRay_L lp uninit p d = castRay_L lp' uninit' p d" for p d
    by (simp add: castRay_L_def Let_def rayLoop_L_indep [of lp uninit _ _ _ _ lp' uninit']
        split: option.split)
  show ?thesis
    by (simp add: lighting_def mainImage_L_def c)
qed

section \<open>The loop of the overlay shader\<close>

text \<open>
  The step size is \<open>7158279 / 2 ^ 30\<close>, the binary32 number next to \<open>1/150\<close>. One pass
  moves \<^verbatim>\<open>t\<close> by the step up to the rounding of the sum, which is below \<open>2 powr (-20)\<close>
  as long as \<^verbatim>\<open>t\<close> is between \<open>-5\<close> and \<open>5\<close>. For a ray from a position of the camera (no
  coordinate beyond \<open>3/2\<close> in absolute value) in a unit direction, \<^verbatim>\<open>tNear\<close> and \<^verbatim>\<open>tFar\<close>
  are between \<open>-4\<close> and \<open>4\<close> (\<open>hit_range_O\<close>), and the loop is left after finitely many
  passes (\<open>rayStep_O_exit\<close>, \<open>rayLoop_O_run\<close>).
\<close>

lemma rayStepSize_O_value: "rayStepSize_O = 7158279/1073741824"
  by (simp add: rayStepSize_O_def bbMax_O_def bbMin_O_def vec3_of_def sampleNum_O_def round32_step)


lemma rayStep_O_near:
  assumes "\<bar>t\<bar> \<le> 5"
  shows "\<bar>rayStep_O t - (t + rayStepSize_O)\<bar> \<le> 1 / 1048576"
proof -
  have "\<bar>t + rayStepSize_O\<bar> \<le> 6"
    using assms by (simp add: rayStepSize_O_value)
  then have "\<bar>t + rayStepSize_O\<bar> / 2 ^ 24 + 2 powr (- 150) \<le> 6 / 2 ^ 24 + 2 powr (- 150)"
    by (simp add: divide_right_mono)
  also have "\<dots> \<le> 1 / 1048576" by (simp add: powr_minus)
  finally show ?thesis
    unfolding rayStep_O_def using round32_near [of "t + rayStepSize_O"] by linarith
qed

lemma rayStep_O_iterate_bounds:
  assumes "- 4 \<le> t" and "tFar \<le> 4" and "\<forall>j<k. (rayStep_O ^^ j) t < tFar"
  shows "t + real k * (rayStepSize_O - 1 / 1048576) \<le> (rayStep_O ^^ k) t
       \<and> (rayStep_O ^^ k) t \<le> t + real k * (rayStepSize_O + 1 / 1048576)"
  using assms(3)
proof (induction k)
  case 0
  show ?case by simp
next
  case (Suc k)
  let ?T = "(rayStep_O ^^ k) t"
  from Suc.prems have "\<forall>j<k. (rayStep_O ^^ j) t < tFar" by simp
  from Suc.IH [OF this]
  have lo: "t + real k * (rayStepSize_O - 1 / 1048576) \<le> ?T"
    and hi: "?T \<le> t + real k * (rayStepSize_O + 1 / 1048576)" by blast+
  from Suc.prems have "?T < tFar" by simp
  with assms(2) have up: "?T \<le> 4" by simp
  have "0 \<le> real k * (rayStepSize_O - 1 / 1048576)"
    by (simp add: rayStepSize_O_value)
  with lo assms(1) have dn: "- 4 \<le> ?T" by linarith
  from up dn have "\<bar>?T\<bar> \<le> 5" by simp
  from rayStep_O_near [OF this]
  have n: "\<bar>rayStep_O ?T - (?T + rayStepSize_O)\<bar> \<le> 1 / 1048576" .
  have e: "(rayStep_O ^^ Suc k) t = rayStep_O ?T" by simp
  have "t + real (Suc k) * (rayStepSize_O - 1 / 1048576)
      = t + real k * (rayStepSize_O - 1 / 1048576) + (rayStepSize_O - 1 / 1048576)"
    by (simp add: algebra_simps)
  moreover have "t + real (Suc k) * (rayStepSize_O + 1 / 1048576)
      = t + real k * (rayStepSize_O + 1 / 1048576) + (rayStepSize_O + 1 / 1048576)"
    by (simp add: algebra_simps)
  ultimately show ?case unfolding e using lo hi n by linarith
qed

lemma rayStep_O_exit:
  assumes "- 4 \<le> t" and "tFar \<le> 4"
  shows "\<exists>n. (\<forall>k<n. (rayStep_O ^^ k) t < tFar) \<and> tFar \<le> (rayStep_O ^^ n) t"
proof -
  have "\<exists>n. tFar \<le> (rayStep_O ^^ n) t"
  proof (rule ccontr)
    assume "\<not> (\<exists>n. tFar \<le> (rayStep_O ^^ n) t)"
    then have all: "\<forall>j. (rayStep_O ^^ j) t < tFar" by (simp add: not_le)
    then have "\<forall>j<1600. (rayStep_O ^^ j) t < tFar" by simp
    from rayStep_O_iterate_bounds [OF assms this]
    have "t + real 1600 * (rayStepSize_O - 1 / 1048576) \<le> (rayStep_O ^^ 1600) t" by blast
    moreover have "8 \<le> real 1600 * (rayStepSize_O - 1 / 1048576)"
      by (simp add: rayStepSize_O_value)
    moreover from all have "(rayStep_O ^^ 1600) t < tFar" by blast
    ultimately show False using assms by linarith
  qed
  then obtain n where "tFar \<le> (rayStep_O ^^ n) t"
    and "\<forall>k<n. \<not> tFar \<le> (rayStep_O ^^ k) t"
    by (auto simp: exists_least_iff [of "\<lambda>n. tFar \<le> (rayStep_O ^^ n) t"])
  then show ?thesis by (auto simp: not_le)
qed

lemma rayLoop_O_run:
  assumes "i < sampleNum_O"
  shows "(\<forall>k<n. (rayStep_O ^^ k) t < tFar) \<Longrightarrow> tFar \<le> (rayStep_O ^^ n) t \<Longrightarrow>
         rayLoop_O tex camPos rayDir tFar t i finalColor
           = Some ((rayStep_O ^^ n) t, i,
                   foldl (rayBody_O tex camPos rayDir) finalColor
                     (map (\<lambda>k. (rayStep_O ^^ k) t) [0..<n]))"
proof (induction n arbitrary: t finalColor)
  case 0
  then have "\<not> t < tFar" by simp
  then show ?case
    by (subst rayLoop_O.simps) simp
next
  case (Suc n)
  from Suc.prems(1) have lt: "t < tFar" by auto
  have a: "\<forall>k<n. (rayStep_O ^^ k) (rayStep_O t) < tFar"
  proof (intro allI impI)
    fix k assume "k < n"
    then have "(rayStep_O ^^ Suc k) t < tFar" using Suc.prems(1) by blast
    then show "(rayStep_O ^^ k) (rayStep_O t) < tFar" by (simp only: funpow_Suc_right o_apply)
  qed
  have b: "tFar \<le> (rayStep_O ^^ n) (rayStep_O t)"
    using Suc.prems(2) by (simp only: funpow_Suc_right o_apply)
  have "rayLoop_O tex camPos rayDir tFar t i finalColor
      = rayLoop_O tex camPos rayDir tFar (rayStep_O t) i (rayBody_O tex camPos rayDir finalColor t)"
    using lt assms by (subst rayLoop_O.simps) simp
  also have "\<dots> = Some ((rayStep_O ^^ n) (rayStep_O t), i,
                   foldl (rayBody_O tex camPos rayDir) (rayBody_O tex camPos rayDir finalColor t)
                     (map (\<lambda>k. (rayStep_O ^^ k) (rayStep_O t)) [0..<n]))"
    using a b by (rule Suc.IH)
  also have "(rayStep_O ^^ n) (rayStep_O t) = (rayStep_O ^^ Suc n) t"
    by (simp only: funpow_Suc_right o_apply)
  also have "foldl (rayBody_O tex camPos rayDir) (rayBody_O tex camPos rayDir finalColor t)
                     (map (\<lambda>k. (rayStep_O ^^ k) (rayStep_O t)) [0..<n])
      = foldl (rayBody_O tex camPos rayDir) finalColor
                     (map (\<lambda>k. (rayStep_O ^^ k) t) [0..<Suc n])"
    by (simp only: map_upt_Suc foldl_Cons funpow_0 funpow_Suc_right o_apply)
  finally show ?case .
qed













section \<open>Compositing\<close>

subsection \<open>The lighting shader\<close>

text \<open>
  The lighting shader blends front to back. One blending step does not lower the
  accumulated alpha and keeps it in \<open>[0, 1]\<close>, and so does any sequence of steps; the
  colours that \<open>shade_L\<close> produces have alpha 0 or 1, and the loop is such a sequence.
\<close>

lemma blend_L_alpha:
  assumes "0 \<le> va finalColor" and "va finalColor \<le> 1" and "0 \<le> va color" and "va color \<le> 1"
  shows "va finalColor \<le> va (blend_L finalColor color) \<and> va (blend_L finalColor color) \<le> 1"
proof -
  have e: "va (blend_L finalColor color) = va finalColor + (1 - va finalColor) * va color"
    by (simp add: blend_L_def add4_def scale4_def)
  have "0 \<le> (1 - va finalColor) * va color"
    using assms by simp
  moreover have "(1 - va finalColor) * va color \<le> (1 - va finalColor) * 1"
    using assms by (intro mult_left_mono) simp_all
  ultimately show ?thesis unfolding e by simp
qed

lemma blend_L_alpha_foldl:
  assumes "0 \<le> va finalColor" and "va finalColor \<le> 1"
    and "\<forall>c \<in> set colors. 0 \<le> va c \<and> va c \<le> 1"
  shows "va finalColor \<le> va (foldl blend_L finalColor colors)
       \<and> va (foldl blend_L finalColor colors) \<le> 1"
  using assms
proof (induction colors arbitrary: finalColor)
  case Nil
  then show ?case by simp
next
  case (Cons c colors)
  from Cons.prems have c: "0 \<le> va c" "va c \<le> 1" by simp_all
  from blend_L_alpha [OF Cons.prems(1,2) c]
  have b: "va finalColor \<le> va (blend_L finalColor c)" "va (blend_L finalColor c) \<le> 1"
    by simp_all
  from b(1) Cons.prems(1) have "0 \<le> va (blend_L finalColor c)" by simp
  from Cons.IH [OF this b(2)] Cons.prems(3) b(1) show ?case by auto
qed

lemma shade_L_alpha: "va (shade_L lp uninit rayDir pos) = 0 \<or> va (shade_L lp uninit rayDir pos) = 1"
  by (simp add: shade_L_def lighting_def Let_def premultiply_def transferFunction_L_def vec4_of_def)

lemma rayLoop_L_samples:
  "rayLoop_L lp uninit rayDir i pos finalColor
     = foldl blend_L finalColor
         (map (shade_L lp uninit rayDir) (raySamples_L lp uninit rayDir i pos finalColor))"
proof (induction lp uninit rayDir i pos finalColor rule: rayLoop_L.induct)
  case (1 lp uninit rayDir i pos finalColor)
  let ?pos = "add3 pos (scale3 rayStepSize_L rayDir)"
  show ?case
  proof (cases "i < sampleNum_L \<and> \<not> va finalColor > 99/100")
    case True
    then have a: "i < sampleNum_L" and b: "\<not> va finalColor > 99/100" by simp_all
    have l: "rayLoop_L lp uninit rayDir i pos finalColor
        = rayLoop_L lp uninit rayDir (i + 1) ?pos (blend_L finalColor (shade_L lp uninit rayDir ?pos))"
      by (simp only: rayLoop_L.simps [of lp uninit rayDir i pos finalColor] if_P [OF a] if_not_P [OF b])
    have r: "raySamples_L lp uninit rayDir i pos finalColor
        = ?pos # raySamples_L lp uninit rayDir (i + 1) ?pos
                   (blend_L finalColor (shade_L lp uninit rayDir ?pos))"
      by (simp only: raySamples_L.simps [of lp uninit rayDir i pos finalColor] if_P [OF a] if_not_P [OF b])
    show ?thesis
      unfolding l r "1.IH" [OF a b] by simp
  next
    case False
    then have "rayLoop_L lp uninit rayDir i pos finalColor = finalColor"
      and "raySamples_L lp uninit rayDir i pos finalColor = []"
      by (auto simp: rayLoop_L.simps [of lp uninit rayDir i pos finalColor]
          raySamples_L.simps [of lp uninit rayDir i pos finalColor])
    then show ?thesis by simp
  qed
qed

lemma castRay_L_samples:
  "castRay_L lp uninit camPos rayDir
     = map_option
         (\<lambda>samples.
            let finalColor = foldl blend_L (vec4_of 0) (map (shade_L lp uninit rayDir) samples)
            in add4 (scale4 (va finalColor) finalColor) (scale4 (1 - va finalColor) background))
         (castSamples_L lp uninit camPos rayDir)"
  by (auto simp: castRay_L_def castSamples_L_def Let_def rayLoop_L_samples [symmetric]
      vec4_of_def add4_def scale4_def background_def split: option.split)

lemma shade_L_transparent:
  "sampleVolume_L pos \<le> EPS \<Longrightarrow> shade_L lp uninit rayDir pos = vec4_of 0"
  by (simp add: shade_L_def lighting_def Let_def premultiply_def transferFunction_L_def vec4_of_def)

lemma blend_L_transparent: "blend_L finalColor (vec4_of 0) = finalColor"
  by (simp add: blend_L_def add4_def scale4_def vec4_of_def)

lemma foldl_blend_L_transparent:
  "\<forall>p \<in> set samples. sampleVolume_L p \<le> EPS \<Longrightarrow>
   foldl blend_L finalColor (map (shade_L lp uninit rayDir) samples) = finalColor"
  by (induction samples arbitrary: finalColor)
     (simp_all add: shade_L_transparent blend_L_transparent)

lemma castRay_L_transparent:
  assumes "castSamples_L lp uninit camPos rayDir = Some samples"
    and "\<forall>p \<in> set samples. sampleVolume_L p \<le> EPS"
  shows "castRay_L lp uninit camPos rayDir = Some background"
  using assms
  by (simp add: castRay_L_samples foldl_blend_L_transparent vec4_of_def add4_def scale4_def
      background_def)

subsection \<open>The overlay shader\<close>

lemma rayBody_O_value:
  "rayBody_O tex camPos rayDir finalColor t
     = scale4 (vr (tex (add3 (add3 camPos (scale3 t rayDir)) (vec3_of (1/2))))) (vec4_of (1/2))"
  by (simp add: rayBody_O_def accumulation_def sampleVolume_O_def Let_def)

lemma foldl_constant:
  assumes "xs \<noteq> []" and "\<And>c x. f c x = K"
  shows "foldl f c xs = K"
proof -
  from assms(1) have "xs = butlast xs @ [last xs]" by simp
  then have "foldl f c xs = foldl f c (butlast xs @ [last xs])" by simp
  also have "\<dots> = K" by (simp only: foldl_append foldl.simps assms(2))
  finally show ?thesis .
qed

text \<open>
  Claim C3. Across the samples composited in the ray march of a pixel, the alpha of the
  accumulated colour never decreases from one step to the next and stays in \<open>[0, 1]\<close>,
  provided the alpha of every sample colour is in \<open>[0, 1]\<close>.

  The lighting shader keeps this (\<open>blend_L_alpha_foldl\<close>). The overlay shader breaks it:
  its \<^verbatim>\<open>accumulation\<close> is a placeholder where the source asks for front-to-back
  blending. For the texture that is 1 where the third texture coordinate is above 0.998 and
  0 elsewhere, and the ray from \<open>(9/10, 3/4, 6/5)\<close> in the direction \<open>(-2/3, -1/3, -2/3)\<close>,
  the first two passes of the loop leave the accumulated alpha at 0.5 and then at 0, while
  the two sample colours have the alphas 1 and 0.
\<close>

theorem overlay_alpha_decreases:
  "intersectBoundingBox bbMin_O bbMax_O (Vec3 (9/10) (3/4) (6/5))
       (Vec3 (- (2/3)) (- (1/3)) (- (2/3)))
     = Some (True, 21/20, 21/10)
   \<and> rayLoop_O (\<lambda>p. if 499/500 < vz p then vec4_of 1 else vec4_of 0)
        (Vec3 (9/10) (3/4) (6/5)) (Vec3 (- (2/3)) (- (1/3)) (- (2/3))) (21/10) (21/20) 0 (vec4_of 0)
     = rayLoop_O (\<lambda>p. if 499/500 < vz p then vec4_of 1 else vec4_of 0)
        (Vec3 (9/10) (3/4) (6/5)) (Vec3 (- (2/3)) (- (1/3)) (- (2/3))) (21/10)
        (rayStep_O (rayStep_O (21/20))) 0
        (rayBody_O (\<lambda>p. if 499/500 < vz p then vec4_of 1 else vec4_of 0)
           (Vec3 (9/10) (3/4) (6/5)) (Vec3 (- (2/3)) (- (1/3)) (- (2/3)))
           (rayBody_O (\<lambda>p. if 499/500 < vz p then vec4_of 1 else vec4_of 0)
              (Vec3 (9/10) (3/4) (6/5)) (Vec3 (- (2/3)) (- (1/3)) (- (2/3))) (vec4_of 0) (21/20))
           (rayStep_O (21/20)))
   \<and> va (rayBody_O (\<lambda>p. if 499/500 < vz p then vec4_of 1 else vec4_of 0)
           (Vec3 (9/10) (3/4) (6/5)) (Vec3 (- (2/3)) (- (1/3)) (- (2/3))) (vec4_of 0) (21/20)) = 1/2
   \<and> va (rayBody_O (\<lambda>p. if 499/500 < vz p then vec4_of 1 else vec4_of 0)
           (Vec3 (9/10) (3/4) (6/5)) (Vec3 (- (2/3)) (- (1/3)) (- (2/3)))
           (rayBody_O (\<lambda>p. if 499/500 < vz p then vec4_of 1 else vec4_of 0)
              (Vec3 (9/10) (3/4) (6/5)) (Vec3 (- (2/3)) (- (1/3)) (- (2/3))) (vec4_of 0) (21/20))
           (rayStep_O (21/20))) = 0
   \<and> opacityCorrection (va (transferFunction_O 1)) opacityCorrectionFactor_O = Some 1
   \<and> opacityCorrection (va (transferFunction_O 0)) opacityCorrectionFactor_O = Some 0"
proof -
  let ?tex = "\<lambda>p. if 499/500 < vz p then vec4_of 1 else vec4_of 0"
  let ?cam = "Vec3 (9/10) (3/4) (6/5)"
  let ?dir = "Vec3 (- (2/3)) (- (1/3)) (- (2/3))"
  let ?c1 = "rayBody_O ?tex ?cam ?dir (vec4_of 0) (21/20)"
  let ?c2 = "rayBody_O ?tex ?cam ?dir ?c1 (rayStep_O (21/20))"
  have "\<bar>rayStep_O (21/20) - (21/20 + rayStepSize_O)\<bar> \<le> 1 / 1048576"
    by (rule rayStep_O_near) simp
  then have t1: "21/20 + 1/200 \<le> rayStep_O (21/20)" "rayStep_O (21/20) < 21/10"
    unfolding rayStepSize_O_value by linarith+
  have i: "(0::int) < sampleNum_O" by (simp add: sampleNum_O_def)
  have "rayLoop_O ?tex ?cam ?dir (21/10) (21/20) 0 (vec4_of 0)
      = rayLoop_O ?tex ?cam ?dir (21/10) (rayStep_O (21/20)) 0 ?c1"
    by (subst rayLoop_O.simps) (simp add: sampleNum_O_def)
  also have "\<dots> = rayLoop_O ?tex ?cam ?dir (21/10) (rayStep_O (rayStep_O (21/20))) 0 ?c2"
    by (subst rayLoop_O.simps) (simp only: t1(2) i simp_thms if_True)
  finally have loop: "rayLoop_O ?tex ?cam ?dir (21/10) (21/20) 0 (vec4_of 0)
      = rayLoop_O ?tex ?cam ?dir (21/10) (rayStep_O (rayStep_O (21/20))) 0 ?c2" .
  have a1: "va ?c1 = 1/2"
    by (simp add: rayBody_O_value add3_def scale3_def vec3_of_def vec4_of_def scale4_def)
  have "\<not> 499/500 < 6/5 + rayStep_O (21/20) * (- (2/3)) + 1/2"
    using t1(1) by simp
  then have a2: "va ?c2 = 0"
    by (simp add: rayBody_O_value add3_def scale3_def vec3_of_def vec4_of_def scale4_def)
  have o1: "opacityCorrection (va (transferFunction_O 1)) opacityCorrectionFactor_O = Some 1"
    by (simp add: opacityCorrection_def pow32_def transferFunction_O_def vec4_of_def
        opacityCorrectionFactor_O_def sampleNum_O_def voxelWidth_def)
  have o2: "opacityCorrection (va (transferFunction_O 0)) opacityCorrectionFactor_O = Some 0"
    by (simp add: opacityCorrection_def pow32_def transferFunction_O_def vec4_of_def
        opacityCorrectionFactor_O_def sampleNum_O_def voxelWidth_def)
  from intersect_O_hit loop a1 a2 o1 o2 show ?thesis by blast
qed

text \<open>
  Claim C7. For a pixel whose ray hits the box while every sample of the march is below the
  threshold of the transfer function, so that every classified sample is fully
  transparent, the fragment colour is the background colour.

  The lighting shader keeps this (\<open>castRay_L_transparent\<close>). The overlay shader breaks it,
  again through the placeholder in \<^verbatim>\<open>accumulation\<close>: for the texture that is 0.4
  everywhere, below the threshold 0.5, the ray from \<open>(9/10, 3/4, 6/5)\<close> in the direction
  \<open>(-2/3, -1/3, -2/3)\<close> hits the box and the fragment colour is \<open>(0.04, 0.04, 0.04, 1)\<close>.
\<close>

theorem overlay_empty_space:
  "intersectBoundingBox bbMin_O bbMax_O (Vec3 (9/10) (3/4) (6/5))
       (Vec3 (- (2/3)) (- (1/3)) (- (2/3)))
     = Some (True, 21/20, 21/10)
   \<and> transferFunction_O (2/5) = Vec4 0 0 0 0
   \<and> castRay_O (\<lambda>p. vec4_of (2/5)) (Vec3 (9/10) (3/4) (6/5)) (Vec3 (- (2/3)) (- (1/3)) (- (2/3)))
     = Some (Vec4 (1/25) (1/25) (1/25) 1)
   \<and> Vec4 (1/25) (1/25) (1/25) 1 \<noteq> background"
proof -
  let ?tex = "\<lambda>p::vec3. vec4_of (2/5)"
  let ?cam = "Vec3 (9/10) (3/4) (6/5)"
  let ?dir = "Vec3 (- (2/3)) (- (1/3)) (- (2/3))"
  have h: "intersectBoundingBox bbMin_O bbMax_O ?cam ?dir = Some (True, 21/20, 21/10)"
    by (rule intersect_O_hit)
  have b: "rayBody_O ?tex ?cam ?dir c t = Vec4 (1/5) (1/5) (1/5) (1/5)" for c t
    by (simp add: rayBody_O_value scale4_def vec4_of_def)
  have "\<exists>n. (\<forall>k<n. (rayStep_O ^^ k) (21/20) < 21/10) \<and> 21/10 \<le> (rayStep_O ^^ n) (21/20)"
    by (rule rayStep_O_exit) simp_all
  then obtain n where lt: "\<forall>k<n. (rayStep_O ^^ k) (21/20) < 21/10"
    and ge: "21/10 \<le> (rayStep_O ^^ n) (21/20)" by blast
  have i: "(0::int) < sampleNum_O" by (simp add: sampleNum_O_def)
  have n: "n \<noteq> 0"
  proof
    assume "n = 0"
    with ge show False by simp
  qed
  have l: "rayLoop_O ?tex ?cam ?dir (21/10) (21/20) 0 (vec4_of 0)
      = Some ((rayStep_O ^^ n) (21/20), 0,
              foldl (rayBody_O ?tex ?cam ?dir) (vec4_of 0)
                (map (\<lambda>k. (rayStep_O ^^ k) (21/20)) [0..<n]))"
    using i lt ge by (rule rayLoop_O_run)
  have "map (\<lambda>k. (rayStep_O ^^ k) (21/20 :: real)) [0..<n] \<noteq> []" using n by simp
  then have "foldl (rayBody_O ?tex ?cam ?dir) (vec4_of 0)
                (map (\<lambda>k. (rayStep_O ^^ k) (21/20)) [0..<n])
      = Vec4 (1/5) (1/5) (1/5) (1/5)"
    using b by (rule foldl_constant)
  with l have "rayLoop_O ?tex ?cam ?dir (21/10) (21/20) 0 (vec4_of 0)
      = Some ((rayStep_O ^^ n) (21/20), 0, Vec4 (1/5) (1/5) (1/5) (1/5))" by simp
  then have "castRay_O ?tex ?cam ?dir = Some (Vec4 (1/25) (1/25) (1/25) 1)"
    by (simp add: castRay_O_def h mix3_def mix1_def rgb_def background_def)
  moreover have "transferFunction_O (2/5) = Vec4 0 0 0 0"
    by (simp add: transferFunction_O_def vec4_of_def)
  moreover have "Vec4 (1/25) (1/25) (1/25) 1 \<noteq> background"
    by (simp add: background_def)
  ultimately show ?thesis using h by blast
qed

section \<open>The transfer functions\<close>

lemma transferFunction_O_above: "1/2 \<le> value \<Longrightarrow> transferFunction_O value = Vec4 value value value value"
  by (simp add: transferFunction_O_def vec4_of_def)

lemma transferFunction_O_isCont:
  assumes "1/2 < value"
  shows "isCont (\<lambda>v. vr (transferFunction_O v)) value"
    and "isCont (\<lambda>v. vg (transferFunction_O v)) value"
    and "isCont (\<lambda>v. vb (transferFunction_O v)) value"
    and "isCont (\<lambda>v. va (transferFunction_O v)) value"
proof -
  have ev: "eventually (\<lambda>v. transferFunction_O v = Vec4 v v v v) (nhds value)"
    unfolding eventually_nhds
  proof (intro exI conjI ballI)
    show "open {1/2 <..< value + 1}" by (rule open_greaterThanLessThan)
    show "value \<in> {1/2 <..< value + 1}" using assms by simp
  next
    fix v :: real
    assume "v \<in> {1/2 <..< value + 1}"
    then show "transferFunction_O v = Vec4 v v v v"
      by (simp add: transferFunction_O_above)
  qed
  have id: "isCont (\<lambda>v::real. v) value" by simp
  have "eventually (\<lambda>v. vr (transferFunction_O v) = v) (nhds value)"
    using ev by (rule eventually_mono) simp
  then show "isCont (\<lambda>v. vr (transferFunction_O v)) value"
    using id by (simp add: isCont_cong)
  have "eventually (\<lambda>v. vg (transferFunction_O v) = v) (nhds value)"
    using ev by (rule eventually_mono) simp
  then show "isCont (\<lambda>v. vg (transferFunction_O v)) value"
    using id by (simp add: isCont_cong)
  have "eventually (\<lambda>v. vb (transferFunction_O v) = v) (nhds value)"
    using ev by (rule eventually_mono) simp
  then show "isCont (\<lambda>v. vb (transferFunction_O v)) value"
    using id by (simp add: isCont_cong)
  have "eventually (\<lambda>v. va (transferFunction_O v) = v) (nhds value)"
    using ev by (rule eventually_mono) simp
  then show "isCont (\<lambda>v. va (transferFunction_O v)) value"
    using id by (simp add: isCont_cong)
qed

text \<open>
  Claim C8, as the specification states it: the transfer function maps every value below
  its threshold to a fully transparent colour and every value above it to an opaque colour
  interpolated linearly between adjacent nodes of an ordered palette, so that it is
  continuous at each node boundary and jumps only at the transparency threshold.

  Neither shader interpolates. In the lighting shader the green component jumps from 0 to 1
  at \<open>cube1Density + EPS\<close>, the bound between the blue and the green class; in the overlay
  shader the colour of the value 0.75 has alpha 0.75, not 1.
\<close>

theorem transferFunction_L_jump:
  "\<not> isCont (\<lambda>v. vg (transferFunction_L v)) (cube1Density + EPS)
   \<and> va (transferFunction_O (3/4)) \<noteq> 1"
proof
  let ?a = "cube1Density + EPS"
  show "\<not> isCont (\<lambda>v. vg (transferFunction_L v)) ?a"
  proof
    assume "isCont (\<lambda>v. vg (transferFunction_L v)) ?a"
    then have "\<forall>r>0. \<exists>s>0. \<forall>x. x \<noteq> ?a \<and> dist x ?a < s
                 \<longrightarrow> dist (vg (transferFunction_L x)) (vg (transferFunction_L ?a)) < r"
      by (simp only: isCont_def LIM_def)
    then obtain s where s: "0 < s"
      and c: "\<And>x. x \<noteq> ?a \<Longrightarrow> dist x ?a < s
                \<Longrightarrow> dist (vg (transferFunction_L x)) (vg (transferFunction_L ?a)) < 1/2"
      by (metis half_gt_zero zero_less_one)
    define x where "x = ?a + min (s/2) (1/1000)"
    have m: "0 < min (s/2) (1/1000)" and m': "min (s/2) (1/1000) < s" and m'': "min (s/2) (1/1000) \<le> 1/1000"
      using s by simp_all
    have "x \<noteq> ?a" using m by (simp add: x_def)
    moreover have "dist x ?a < s" using m m' by (simp add: x_def dist_real_def)
    ultimately have d: "dist (vg (transferFunction_L x)) (vg (transferFunction_L ?a)) < 1/2"
      by (rule c)
    have "vg (transferFunction_L ?a) = 0"
      by (simp add: transferFunction_L_def vec4_of_def cube1Density_def cube2Density_def EPS_def)
    moreover have "vg (transferFunction_L x) = 1"
      using m m'' by (simp add: x_def transferFunction_L_def vec4_of_def cube1Density_def cube2Density_def EPS_def)
    ultimately show False using d by (simp add: dist_real_def)
  qed
next
  show "va (transferFunction_O (3/4)) \<noteq> 1"
    by (simp add: transferFunction_O_def vec4_of_def)
qed

text \<open>
  Claim C8, amended. Each transfer function maps every value up to its threshold (at most
  \<open>EPS\<close> in the lighting shader, below 0.5 in the overlay shader) to the fully transparent
  colour \<open>(0, 0, 0, 0)\<close>. Above the threshold the lighting shader returns an opaque colour
  that is constant on each of four classes of values: blue up to \<open>cube1Density + EPS\<close>,
  green up to \<open>cube2Density + EPS\<close>, red up to \<open>cube1Density + cube2Density + EPS\<close>, black
  beyond. The overlay shader returns the grey \<open>(v, v, v, v)\<close> for a value \<open>v\<close> from 0.5 on,
  with the value itself as alpha, and is continuous above 0.5.
\<close>

theorem transferFunction_classes:
  "(value \<le> EPS \<longrightarrow> transferFunction_L value = Vec4 0 0 0 0)
   \<and> (EPS < value \<and> value \<le> cube1Density + EPS \<longrightarrow> transferFunction_L value = Vec4 0 0 1 1)
   \<and> (cube1Density + EPS < value \<and> value \<le> cube2Density + EPS
        \<longrightarrow> transferFunction_L value = Vec4 0 1 0 1)
   \<and> (cube2Density + EPS < value \<and> value \<le> cube1Density + cube2Density + EPS
        \<longrightarrow> transferFunction_L value = Vec4 1 0 0 1)
   \<and> (cube1Density + cube2Density + EPS < value \<longrightarrow> transferFunction_L value = Vec4 0 0 0 1)
   \<and> (value < 1/2 \<longrightarrow> transferFunction_O value = Vec4 0 0 0 0)
   \<and> (1/2 \<le> value \<longrightarrow> transferFunction_O value = Vec4 value value value value)
   \<and> (1/2 < value \<longrightarrow> isCont (\<lambda>v. vr (transferFunction_O v)) value
                      \<and> isCont (\<lambda>v. vg (transferFunction_O v)) value
                      \<and> isCont (\<lambda>v. vb (transferFunction_O v)) value
                      \<and> isCont (\<lambda>v. va (transferFunction_O v)) value)"
proof -
  have l: "(value \<le> EPS \<longrightarrow> transferFunction_L value = Vec4 0 0 0 0)
   \<and> (EPS < value \<and> value \<le> cube1Density + EPS \<longrightarrow> transferFunction_L value = Vec4 0 0 1 1)
   \<and> (cube1Density + EPS < value \<and> value \<le> cube2Density + EPS
        \<longrightarrow> transferFunction_L value = Vec4 0 1 0 1)
   \<and> (cube2Density + EPS < value \<and> value \<le> cube1Density + cube2Density + EPS
        \<longrightarrow> transferFunction_L value = Vec4 1 0 0 1)
   \<and> (cube1Density + cube2Density + EPS < value \<longrightarrow> transferFunction_L value = Vec4 0 0 0 1)"
    by (simp add: transferFunction_L_def vec4_of_def cube1Density_def cube2Density_def EPS_def)
  have o: "(value < 1/2 \<longrightarrow> transferFunction_O value = Vec4 0 0 0 0)
   \<and> (1/2 \<le> value \<longrightarrow> transferFunction_O value = Vec4 value value value value)"
    by (simp add: transferFunction_O_def vec4_of_def)
  from l o transferFunction_O_isCont [of "value"] show ?thesis by blast
qed

theorem transferFunction_classes_witness:
  "transferFunction_L 0 = Vec4 0 0 0 0
   \<and> transferFunction_L (1/100) = Vec4 0 0 1 1
   \<and> transferFunction_L (18/1000) = Vec4 0 1 0 1
   \<and> transferFunction_L (3/100) = Vec4 1 0 0 1
   \<and> transferFunction_L (1/10) = Vec4 0 0 0 1
   \<and> transferFunction_O (1/4) = Vec4 0 0 0 0
   \<and> transferFunction_O (3/4) = Vec4 (3/4) (3/4) (3/4) (3/4)
   \<and> isCont (\<lambda>v. va (transferFunction_O v)) (3/4)"
  using transferFunction_classes [of 0] transferFunction_classes [of "1/100"]
    transferFunction_classes [of "18/1000"] transferFunction_classes [of "3/100"]
    transferFunction_classes [of "1/10"] transferFunction_classes [of "1/4"]
    transferFunction_classes [of "3/4"]
  by (simp add: cube1Density_def cube2Density_def EPS_def)

section \<open>Where the march samples\<close>











end
